theory Spec2Isabelle
  imports Complex_Main "HOL-Library.AList" "HOL-Library.Sublist" "HOL-Library.Multiset"
begin

section \<open>Decoded JSON values and Python exceptions\<close>

text \<open>
  The handlers of \<^verbatim>\<open>src/app.py\<close> work on the value that \<^verbatim>\<open>util.read_json\<close> returns: a
  decoded JSON document. An object is kept as an association list, in insertion order, as
  a Python dict iterates it; the keys of a decoded object are strings. Strings are lists of
  bytes and are taken to be ASCII: case folding and digits beyond ASCII are outside the model.
  A JSON number with a fraction or an exponent decodes to a float; only its conversion by
  \<^verbatim>\<open>int()\<close> is used, which is exact on the value the float holds.
\<close>

datatype pyfloat = Finite rat | PosInf | NegInf | NaN

datatype json =
    JNull
  | JBool bool
  | JInt int
  | JFloat pyfloat
  | JStr string
  | JList "json list"
  | JObj "(string \<times> json) list"

text \<open>
  The exceptions that can reach an \<^verbatim>\<open>except\<close> clause of the handlers. The two classes of
  \<^verbatim>\<open>src.errors\<close> carry the message they are raised with; \<^verbatim>\<open>KeyError\<close> carries the missing
  key; the text of the other builtin exceptions is the interpreter's and is not modelled.
  \<open>OtherError name text\<close> stands for any other subclass of \<^verbatim>\<open>Exception\<close> (what the loader
  raises for a missing or malformed file).

  Modelled from the spec: the classes \<^verbatim>\<open>CountryNotFound\<close> and \<^verbatim>\<open>RegionNotFound\<close> of
  \<^verbatim>\<open>src/errors.py\<close>, which is not among the sources. Section 7 of the specification lists
  them as two separate error kinds, so neither is a subclass of the other.
\<close>

datatype exn =
    CountryNotFound string
  | RegionNotFound string
  | KeyError string
  | TypeError
  | AttributeError
  | ValueError
  | OverflowError
  | OtherError string string

text \<open>\<^verbatim>\<open>type(e).__name__\<close>, the first part of the message of an error response.\<close>

fun exn_name :: "exn \<Rightarrow> string" where
  "exn_name (CountryNotFound m) = ''CountryNotFound''"
| "exn_name (RegionNotFound m) = ''RegionNotFound''"
| "exn_name (KeyError k) = ''KeyError''"
| "exn_name TypeError = ''TypeError''"
| "exn_name AttributeError = ''AttributeError''"
| "exn_name ValueError = ''ValueError''"
| "exn_name OverflowError = ''OverflowError''"
| "exn_name (OtherError n m) = n"

fun is_CountryNotFound :: "exn \<Rightarrow> bool" where
  "is_CountryNotFound (CountryNotFound m) = True"
| "is_CountryNotFound e = False"

fun is_RegionNotFound :: "exn \<Rightarrow> bool" where
  "is_RegionNotFound (RegionNotFound m) = True"
| "is_RegionNotFound e = False"

text \<open>Sequencing of computations that may raise: the first exception ends the evaluation.\<close>

definition try_bind :: "exn + 'a \<Rightarrow> ('a \<Rightarrow> exn + 'b) \<Rightarrow> exn + 'b" where
  "try_bind m f = (case m of Inl e \<Rightarrow> Inl e | Inr x \<Rightarrow> f x)"

section \<open>The Python operations the handlers use\<close>

text \<open>\<^verbatim>\<open>obj[key]\<close> with a string key: a dict looks the key up, every other JSON value raises
  \<^verbatim>\<open>TypeError\<close> (a list or a string wants an integer index, the rest is not subscriptable).\<close>

fun py_getitem :: "json \<Rightarrow> string \<Rightarrow> exn + json" where
  "py_getitem (JObj kvs) k = (case map_of kvs k of None \<Rightarrow> Inl (KeyError k) | Some v \<Rightarrow> Inr v)"
| "py_getitem j k = Inl TypeError"

text \<open>\<^verbatim>\<open>obj.keys()\<close>: only a dict has the method.\<close>

fun py_keys :: "json \<Rightarrow> exn + string list" where
  "py_keys (JObj kvs) = Inr (map fst kvs)"
| "py_keys j = Inl AttributeError"

text \<open>\<^verbatim>\<open>for x in obj\<close>: a dict yields its keys, a list its elements, a string its characters.\<close>

fun py_iter :: "json \<Rightarrow> exn + json list" where
  "py_iter (JObj kvs) = Inr (map (\<lambda>kv. JStr (fst kv)) kvs)"
| "py_iter (JList xs) = Inr xs"
| "py_iter (JStr s) = Inr (map (\<lambda>c. JStr [c]) s)"
| "py_iter j = Inl TypeError"

text \<open>\<^verbatim>\<open>str.lower()\<close> on ASCII.\<close>

definition lower_char :: "char \<Rightarrow> char" where
  "lower_char c =
     (let n = (of_char c :: nat) in if 65 \<le> n \<and> n \<le> 90 then char_of (n + 32) else c)"

definition lower :: "string \<Rightarrow> string" where
  "lower s = map lower_char s"

subsection \<open>\<^verbatim>\<open>int()\<close>\<close>

text \<open>
  \<^verbatim>\<open>int(s)\<close> for a string: surrounding whitespace (tab, line feed, vertical tab, form
  feed, carriage return and space; the separators 0x1C to 0x1F are not stripped) is
  dropped, one sign is allowed, and the rest is decimal digits, where a single underscore
  may stand between two digits. The length limit that later interpreters put on such
  strings is not modelled.
\<close>

definition is_space :: "char \<Rightarrow> bool" where
  "is_space c = (let n = (of_char c :: nat) in (9 \<le> n \<and> n \<le> 13) \<or> n = 32)"

definition strip :: "string \<Rightarrow> string" where
  "strip s = rev (dropWhile is_space (rev (dropWhile is_space s)))"

definition digit_val :: "char \<Rightarrow> nat option" where
  "digit_val c = (let n = (of_char c :: nat) in if 48 \<le> n \<and> n \<le> 57 then Some (n - 48) else None)"

fun parse_digits :: "nat \<Rightarrow> string \<Rightarrow> nat option" where
  "parse_digits acc [] = Some acc"
| "parse_digits acc [c] =
     (case digit_val c of None \<Rightarrow> None | Some d \<Rightarrow> Some (10 * acc + d))"
| "parse_digits acc (c # c' # cs) =
     (if c = CHR ''_''
      then (case digit_val c' of None \<Rightarrow> None | Some d \<Rightarrow> parse_digits (10 * acc + d) cs)
      else (case digit_val c of None \<Rightarrow> None | Some d \<Rightarrow> parse_digits (10 * acc + d) (c' # cs)))"

definition parse_nat :: "string \<Rightarrow> nat option" where
  "parse_nat s =
     (case s of [] \<Rightarrow> None
      | c # cs \<Rightarrow> (case digit_val c of None \<Rightarrow> None | Some d \<Rightarrow> parse_digits d cs))"

definition int_of_str :: "string \<Rightarrow> int option" where
  "int_of_str s =
     (case strip s of [] \<Rightarrow> None
      | c # cs \<Rightarrow>
          if c = CHR ''-'' then map_option (\<lambda>n. - int n) (parse_nat cs)
          else if c = CHR ''+'' then map_option int (parse_nat cs)
          else map_option int (parse_nat (c # cs)))"

text \<open>\<^verbatim>\<open>int(x)\<close> on a decoded JSON value: a float is truncated towards zero.\<close>

fun py_int :: "json \<Rightarrow> exn + int" where
  "py_int (JInt n) = Inr n"
| "py_int (JBool b) = Inr (if b then 1 else 0)"
| "py_int (JStr s) = (case int_of_str s of None \<Rightarrow> Inl ValueError | Some n \<Rightarrow> Inr n)"
| "py_int (JFloat (Finite r)) = Inr (if 0 \<le> r then \<lfloor>r\<rfloor> else \<lceil>r\<rceil>)"
| "py_int (JFloat NaN) = Inl ValueError"
| "py_int (JFloat f) = Inl OverflowError"
| "py_int j = Inl TypeError"

section \<open>Responses\<close>

text \<open>
  A handler returns either \<^verbatim>\<open>jsonify(value)\<close> or \<^verbatim>\<open>util.response_error(message, status)\<close>.
  The message is \<^verbatim>\<open>f"{type(e).__name__} : {e}"\<close>, a function of the exception caught, so the
  response keeps the exception itself.
\<close>

datatype response = Jsonify json | ResponseError exn nat

text \<open>
  Modelled from the spec: the default status of \<^verbatim>\<open>util.response_error\<close>. \<^verbatim>\<open>src/utils.py\<close> is
  not among the sources; section 6 of the specification gives 500 for the unexpected kinds,
  which are the calls that pass no status.
\<close>

definition response_error :: "exn \<Rightarrow> nat option \<Rightarrow> response" where
  "response_error e status = ResponseError e (case status of None \<Rightarrow> 500 | Some s \<Rightarrow> s)"

text \<open>
  \<^verbatim>\<open>util.read_json\<close> and \<^verbatim>\<open>util.pattern_match\<close> are parameters of the handlers: the loader
  maps a file name to the decoded document or to the exception it raises, the matcher gets
  the query and the three candidate fields as the handler passes them.
\<close>

type_synonym loader = "string \<Rightarrow> exn + json"
type_synonym matcher = "string \<Rightarrow> json \<Rightarrow> json \<Rightarrow> json \<Rightarrow> exn + bool"

section \<open>The handlers of \<^verbatim>\<open>src/app.py\<close>\<close>

definition not_found_message :: string where
  "not_found_message = ''This region cannot be found. Please try again.''"

definition country_not_found_message :: string where
  "country_not_found_message = ''This country cannot be found. Please try again.''"

text \<open>
  The two shapes of \<^verbatim>\<open>try\<close> block: \<^verbatim>\<open>except Exception\<close> alone, and a 404 clause for one
  class of \<^verbatim>\<open>src.errors\<close> before it.
\<close>

definition catch_all :: "exn + response \<Rightarrow> response" where
  "catch_all m = (case m of Inr r \<Rightarrow> r | Inl e \<Rightarrow> response_error e None)"

definition catch_not_found :: "(exn \<Rightarrow> bool) \<Rightarrow> exn + response \<Rightarrow> response" where
  "catch_not_found is_nf m =
     (case m of Inr r \<Rightarrow> r
      | Inl e \<Rightarrow> if is_nf e then response_error e (Some 404) else response_error e None)"

subsection \<open>\<^verbatim>\<open>all_data\<close> and \<^verbatim>\<open>history\<close>\<close>



subsection \<open>\<^verbatim>\<open>all_country\<close>\<close>

text \<open>The condition of the \<^verbatim>\<open>if\<close>: the arguments are evaluated left to right, then the call.\<close>

definition all_country_fields :: "json \<Rightarrow> exn + (json \<times> json \<times> json)" where
  "all_country_fields region =
     try_bind (py_getitem region ''country'') (\<lambda>n.
     try_bind (py_getitem region ''iso2'') (\<lambda>a.
     try_bind (py_getitem region ''iso3'') (\<lambda>b. Inr (n, a, b))))"

definition all_country_test :: "matcher \<Rightarrow> string \<Rightarrow> json \<Rightarrow> exn + bool" where
  "all_country_test pattern_match country region =
     try_bind (all_country_fields region) (\<lambda>(n, a, b). pattern_match country n a b)"

fun all_country_loop :: "matcher \<Rightarrow> string \<Rightarrow> json list \<Rightarrow> exn + response" where
  "all_country_loop pattern_match country [] = Inl (CountryNotFound not_found_message)"
| "all_country_loop pattern_match country (region # rest) =
     (case all_country_test pattern_match country region of
        Inl e \<Rightarrow> Inl e
      | Inr True \<Rightarrow> Inr (Jsonify region)
      | Inr False \<Rightarrow> all_country_loop pattern_match country rest)"

definition all_country :: "matcher \<Rightarrow> loader \<Rightarrow> string \<Rightarrow> response" where
  "all_country pattern_match read_json country =
     catch_not_found is_CountryNotFound
       (try_bind (read_json ''data.json'') (\<lambda>data.
        try_bind (py_iter data) (\<lambda>regions.
          all_country_loop pattern_match country regions)))"

subsection \<open>\<^verbatim>\<open>history_country\<close>\<close>

definition keyed_fields :: "json \<Rightarrow> string \<Rightarrow> exn + (json \<times> json \<times> json)" where
  "keyed_fields data region =
     try_bind (py_getitem data region) (\<lambda>e2.
     try_bind (py_getitem e2 ''iso2'') (\<lambda>a.
     try_bind (py_getitem data region) (\<lambda>e3.
     try_bind (py_getitem e3 ''iso3'') (\<lambda>b. Inr (JStr region, a, b)))))"

definition keyed_test :: "matcher \<Rightarrow> string \<Rightarrow> json \<Rightarrow> string \<Rightarrow> exn + bool" where
  "keyed_test pattern_match country data region =
     try_bind (keyed_fields data region) (\<lambda>(n, a, b). pattern_match country n a b)"

fun history_country_loop :: "matcher \<Rightarrow> string \<Rightarrow> json \<Rightarrow> string list \<Rightarrow> exn + response" where
  "history_country_loop pattern_match country data [] = Inl (CountryNotFound not_found_message)"
| "history_country_loop pattern_match country data (region # rest) =
     (case keyed_test pattern_match country data region of
        Inl e \<Rightarrow> Inl e
      | Inr True \<Rightarrow> try_bind (py_getitem data region) (\<lambda>v. Inr (Jsonify v))
      | Inr False \<Rightarrow> history_country_loop pattern_match country data rest)"

definition history_country :: "matcher \<Rightarrow> loader \<Rightarrow> string \<Rightarrow> string \<Rightarrow> response" where
  "history_country pattern_match read_json data_type country =
     catch_not_found is_CountryNotFound
       (try_bind (read_json (''csv_'' @ data_type @ ''.json'')) (\<lambda>data.
        try_bind (py_keys data) (\<lambda>ks.
          history_country_loop pattern_match country data ks)))"

subsection \<open>\<^verbatim>\<open>history_region\<close> and \<^verbatim>\<open>history_region_all\<close>\<close>

definition read_region_json :: "loader \<Rightarrow> string \<Rightarrow> string \<Rightarrow> exn + json" where
  "read_region_json read_json data_type country =
     (if lower country \<in> set [''us'', ''united states'', ''usa'']
      then read_json (''csv_'' @ data_type @ ''_us_region.json'')
      else read_json (''csv_'' @ data_type @ ''_region.json''))"

text \<open>\<^verbatim>\<open>data[inner_country]["regions"]\<close>.\<close>

definition regions_of :: "json \<Rightarrow> string \<Rightarrow> exn + json" where
  "regions_of data inner_country =
     try_bind (py_getitem data inner_country) (\<lambda>e. py_getitem e ''regions'')"

text \<open>
  The inner loop: \<open>Inr (Some v)\<close> is the \<^verbatim>\<open>return jsonify(v)\<close>, \<open>Inr None\<close> the end of the
  loop. \<^verbatim>\<open>region.lower()\<close> exists for a string only; the subscript then uses that string.
\<close>

fun region_loop :: "string \<Rightarrow> json \<Rightarrow> string \<Rightarrow> json list \<Rightarrow> exn + json option" where
  "region_loop region_name data inner_country [] = Inr None"
| "region_loop region_name data inner_country (region # rest) =
     (case region of
        JStr r \<Rightarrow>
          if lower r = lower region_name
          then try_bind (regions_of data inner_country) (\<lambda>rs.
               try_bind (py_getitem rs r) (\<lambda>v. Inr (Some v)))
          else region_loop region_name data inner_country rest
      | _ \<Rightarrow> Inl AttributeError)"

text \<open>The inner \<^verbatim>\<open>for\<close> statement: its iterable is evaluated, then the loop runs.\<close>

definition region_scan :: "string \<Rightarrow> json \<Rightarrow> string \<Rightarrow> exn + json option" where
  "region_scan region_name data inner_country =
     try_bind (regions_of data inner_country) (\<lambda>rs.
     try_bind (py_iter rs) (\<lambda>xs.
       region_loop region_name data inner_country xs))"

fun history_region_loop ::
  "matcher \<Rightarrow> string \<Rightarrow> string \<Rightarrow> json \<Rightarrow> string list \<Rightarrow> exn + response" where
  "history_region_loop pattern_match country region_name data [] =
     Inl (RegionNotFound not_found_message)"
| "history_region_loop pattern_match country region_name data (inner_country # rest) =
     (case keyed_test pattern_match country data inner_country of
        Inl e \<Rightarrow> Inl e
      | Inr False \<Rightarrow> history_region_loop pattern_match country region_name data rest
      | Inr True \<Rightarrow>
          (case region_scan region_name data inner_country of
             Inl e \<Rightarrow> Inl e
           | Inr (Some v) \<Rightarrow> Inr (Jsonify v)
           | Inr None \<Rightarrow> history_region_loop pattern_match country region_name data rest))"

definition history_region :: "matcher \<Rightarrow> loader \<Rightarrow> string \<Rightarrow> string \<Rightarrow> string \<Rightarrow> response" where
  "history_region pattern_match read_json data_type country region_name =
     catch_not_found is_RegionNotFound
       (try_bind (read_region_json read_json data_type country) (\<lambda>data.
        try_bind (py_keys data) (\<lambda>ks.
          history_region_loop pattern_match country region_name data ks)))"

fun history_region_all_loop :: "matcher \<Rightarrow> string \<Rightarrow> json \<Rightarrow> string list \<Rightarrow> exn + response" where
  "history_region_all_loop pattern_match country data [] =
     Inl (CountryNotFound country_not_found_message)"
| "history_region_all_loop pattern_match country data (inner_country # rest) =
     (case keyed_test pattern_match country data inner_country of
        Inl e \<Rightarrow> Inl e
      | Inr True \<Rightarrow> try_bind (regions_of data inner_country) (\<lambda>v. Inr (Jsonify v))
      | Inr False \<Rightarrow> history_region_all_loop pattern_match country data rest)"

definition history_region_all :: "matcher \<Rightarrow> loader \<Rightarrow> string \<Rightarrow> string \<Rightarrow> response" where
  "history_region_all pattern_match read_json data_type country =
     catch_not_found is_CountryNotFound
       (try_bind (read_region_json read_json data_type country) (\<lambda>data.
        try_bind (py_keys data) (\<lambda>ks.
          history_region_all_loop pattern_match country data ks)))"

subsection \<open>\<^verbatim>\<open>history_region_world\<close>\<close>

text \<open>\<^verbatim>\<open>data[d]["history"]\<close> and \<^verbatim>\<open>int(data[d]["history"][h])\<close>.\<close>

definition history_of :: "json \<Rightarrow> string \<Rightarrow> exn + json" where
  "history_of data d = try_bind (py_getitem data d) (\<lambda>e. py_getitem e ''history'')"

definition world_count :: "json \<Rightarrow> string \<Rightarrow> string \<Rightarrow> exn + int" where
  "world_count data d h =
     try_bind (history_of data d) (\<lambda>hs. try_bind (py_getitem hs h) py_int)"

text \<open>
  \<^verbatim>\<open>ret["history"]\<close> is a dict from date to int, in insertion order: a new key goes to the
  end, \<^verbatim>\<open>+=\<close> changes the value in place.
\<close>

definition dict_add :: "(string \<times> int) list \<Rightarrow> string \<Rightarrow> int \<Rightarrow> (string \<times> int) list" where
  "dict_add ret h n = map (\<lambda>(k, m). if k = h then (k, m + n) else (k, m)) ret"

fun world_inner ::
  "json \<Rightarrow> string \<Rightarrow> string list \<Rightarrow> (string \<times> int) list \<Rightarrow> exn + (string \<times> int) list" where
  "world_inner data d [] ret = Inr ret"
| "world_inner data d (h # hs) ret =
     (if h \<notin> set (map fst ret)
      then (case world_count data d h of
              Inl e \<Rightarrow> Inl e
            | Inr n \<Rightarrow> world_inner data d hs (ret @ [(h, n)]))
      else (case world_count data d h of
              Inl e \<Rightarrow> Inl e
            | Inr n \<Rightarrow> world_inner data d hs (dict_add ret h n)))"

fun world_outer ::
  "json \<Rightarrow> string list \<Rightarrow> (string \<times> int) list \<Rightarrow> exn + (string \<times> int) list" where
  "world_outer data [] ret = Inr ret"
| "world_outer data (d # ds) ret =
     (case try_bind (history_of data d) py_keys of
        Inl e \<Rightarrow> Inl e
      | Inr hs \<Rightarrow>
          (case world_inner data d hs ret of
             Inl e \<Rightarrow> Inl e
           | Inr ret' \<Rightarrow> world_outer data ds ret'))"

definition world_ret :: "(string \<times> int) list \<Rightarrow> json" where
  "world_ret ret = JObj [(''history'', JObj (map (\<lambda>(h, n). (h, JInt n)) ret))]"

definition history_region_world :: "loader \<Rightarrow> string \<Rightarrow> response" where
  "history_region_world read_json data_type =
     catch_all
       (try_bind (read_json (''csv_'' @ data_type @ ''.json'')) (\<lambda>data.
        try_bind (py_keys data) (\<lambda>ds.
        try_bind (world_outer data ds []) (\<lambda>ret. Inr (Jsonify (world_ret ret))))))"

section \<open>The identifier matcher\<close>

text \<open>Python's \<^verbatim>\<open>q in n\<close> on strings: \<open>q\<close> occurs in \<open>n\<close> as a contiguous block.\<close>

fun is_substring :: "string \<Rightarrow> string \<Rightarrow> bool" where
  "is_substring q [] = (q = [])"
| "is_substring q (c # cs) = (prefix q (c # cs) \<or> is_substring q cs)"

text \<open>
  Modelled from the spec: \<^verbatim>\<open>util.pattern_match\<close>, whose module \<^verbatim>\<open>src/utils.py\<close> is not among
  the sources. Section 4.1: the query and each candidate field are folded to lower case;
  the match succeeds if the folded query equals any of the three fields, or the folded
  query is a non-empty substring of the folded name; the empty query never matches.
\<close>

definition pattern_match :: "string \<Rightarrow> string \<Rightarrow> string \<Rightarrow> string \<Rightarrow> bool" where
  "pattern_match query name iso2 iso3 =
     (let q = lower query in
        q \<noteq> [] \<and>
        (q = lower name \<or> q = lower iso2 \<or> q = lower iso3 \<or>
         (q \<noteq> [] \<and> is_substring q (lower name))))"

text \<open>
  Modelled from the spec: the same matcher on the values a handler passes. Only a
  string can be folded; any other field raises \<^verbatim>\<open>AttributeError\<close>.
\<close>

definition pattern_match_json :: matcher where
  "pattern_match_json query n a b =
     (case (n, a, b) of
        (JStr name, JStr iso2, JStr iso3) \<Rightarrow> Inr (pattern_match query name iso2 iso3)
      | _ \<Rightarrow> Inl AttributeError)"

section \<open>The result cache\<close>

text \<open>\<^verbatim>\<open>CACHE_DEFAULT_TIMEOUT\<close> of the \<^verbatim>\<open>Cache\<close> configuration, in seconds.\<close>

definition CACHE_DEFAULT_TIMEOUT :: nat where
  "CACHE_DEFAULT_TIMEOUT = 15 * 60"

text \<open>
  Modelled from the spec: the decorator \<^verbatim>\<open>cache.memoize()\<close> of the library
  \<^verbatim>\<open>flask_caching\<close>, which is not among the sources. Section 4.4: the key is the operation
  name with its arguments; an unexpired entry is returned without computing; otherwise the
  computation runs, and its result is stored with the expiry \<open>now + timeout\<close> and returned.
  Time is the clock reading in seconds, passed to each call; the computation may depend on
  it, since the snapshot can be replaced between two calls. The state counts the runs of the
  computation.
\<close>

record cache_entry =
  entry_value :: response
  entry_expiry :: nat

record cache_state =
  entries :: "string \<times> string list \<rightharpoonup> cache_entry"
  computations :: nat

definition cache_store ::
  "string \<times> string list \<Rightarrow> (nat \<Rightarrow> response) \<Rightarrow> nat \<Rightarrow> cache_state \<Rightarrow> response \<times> cache_state" where
  "cache_store key compute now st =
     (let rv = compute now in
        (rv, st\<lparr>entries := (entries st)(key \<mapsto>
                    \<lparr>entry_value = rv, entry_expiry = now + CACHE_DEFAULT_TIMEOUT\<rparr>),
                computations := computations st + 1\<rparr>))"

definition memoize ::
  "string \<Rightarrow> string list \<Rightarrow> (nat \<Rightarrow> response) \<Rightarrow> nat \<Rightarrow> cache_state \<Rightarrow> response \<times> cache_state" where
  "memoize name args compute now st =
     (case entries st (name, args) of
        None \<Rightarrow> cache_store (name, args) compute now st
      | Some e \<Rightarrow>
          if now < entry_expiry e then (entry_value e, st)
          else cache_store (name, args) compute now st)"

definition unexpired :: "cache_state \<Rightarrow> string \<times> string list \<Rightarrow> nat \<Rightarrow> bool" where
  "unexpired st key now =
     (case entries st key of None \<Rightarrow> False | Some e \<Rightarrow> now < entry_expiry e)"

definition empty_cache :: cache_state where
  "empty_cache = \<lparr>entries = Map.empty, computations = 0\<rparr>"

section \<open>Notions used to state the properties\<close>

text \<open>The count an entity holds for a date, as an integer, and the dates it has.\<close>

definition entity_count :: "json \<Rightarrow> string \<Rightarrow> int" where
  "entity_count ent h =
     (case try_bind (py_getitem ent ''history'') (\<lambda>hs. try_bind (py_getitem hs h) py_int) of
        Inr n \<Rightarrow> n | Inl e \<Rightarrow> 0)"

definition entity_dates :: "json \<Rightarrow> string set" where
  "entity_dates ent =
     (case try_bind (py_getitem ent ''history'') py_keys of Inr hs \<Rightarrow> set hs | Inl e \<Rightarrow> {})"

text \<open>An entity of the per-country history snapshot as section 3 describes it: a
  \<^verbatim>\<open>history\<close> object with unique dates, each count readable by \<^verbatim>\<open>int()\<close>.\<close>

definition wf_entity :: "json \<Rightarrow> bool" where
  "wf_entity ent =
     (case py_getitem ent ''history'' of
        Inr (JObj hs) \<Rightarrow>
          distinct (map fst hs) \<and> list_all (\<lambda>kv. \<not> isl (py_int (snd kv))) hs
      | _ \<Rightarrow> False)"

text \<open>The per-date mapping in the response of \<^verbatim>\<open>history_region_world\<close>, if it has one.\<close>

fun world_sums :: "response \<Rightarrow> (string \<rightharpoonup> json) option" where
  "world_sums (Jsonify (JObj [(k, JObj ret)])) =
     (if k = ''history'' then Some (map_of ret) else None)"
| "world_sums r = None"

text \<open>The value of a date in the accumulator, 0 before the date is first seen.\<close>

definition lookup0 :: "(string \<times> int) list \<Rightarrow> string \<Rightarrow> int" where
  "lookup0 ret h = (case map_of ret h of None \<Rightarrow> 0 | Some n \<Rightarrow> n)"

definition count0 :: "json \<Rightarrow> string \<Rightarrow> string \<Rightarrow> int" where
  "count0 data d h = (case world_count data d h of Inr n \<Rightarrow> n | Inl e \<Rightarrow> 0)"

definition inner_contrib :: "json \<Rightarrow> string \<Rightarrow> string list \<Rightarrow> string \<Rightarrow> int" where
  "inner_contrib data d hs h = (\<Sum>k\<leftarrow>hs. if k = h then count0 data d k else 0)"

definition dates_of :: "json \<Rightarrow> string \<Rightarrow> string list" where
  "dates_of data d =
     (case try_bind (history_of data d) py_keys of Inr hs \<Rightarrow> hs | Inl e \<Rightarrow> [])"

definition entity_ok :: "json \<Rightarrow> string \<Rightarrow> bool" where
  "entity_ok data d =
     (case try_bind (history_of data d) py_keys of
        Inl e \<Rightarrow> False
      | Inr hs \<Rightarrow> \<forall>h\<in>set hs. \<not> isl (world_count data d h))"

section \<open>Example snapshots\<close>

definition ex_world :: json where
  "ex_world = JObj
     [(''US'', JObj [(''history'', JObj [(''2021-01-01'', JStr ''10'')])]),
      (''FR'', JObj [(''history'', JObj [(''2021-01-01'', JStr ''5'')])])]"

definition ex_world_shuffled :: json where
  "ex_world_shuffled = JObj
     [(''FR'', JObj [(''history'', JObj [(''2021-01-01'', JStr ''5'')])]),
      (''US'', JObj [(''history'', JObj [(''2021-01-01'', JStr ''10'')])])]"


definition ex_france :: json where
  "ex_france = JObj [(''country'', JStr ''France''), (''iso2'', JStr ''FR''), (''iso3'', JStr ''FRA'')]"

definition ex_finland :: json where
  "ex_finland = JObj [(''country'', JStr ''Finland''), (''iso2'', JStr ''FI''), (''iso3'', JStr ''FIN'')]"

definition ex_guiana :: json where
  "ex_guiana =
     JObj [(''country'', JStr ''French Guiana''), (''iso2'', JStr ''GF''), (''iso3'', JStr ''GUF'')]"

definition ex_no_iso :: json where
  "ex_no_iso = JObj [(''country'', JStr ''Diamond Princess'')]"

definition ex_history :: json where
  "ex_history = JObj
     [(''Finland'', JObj [(''iso2'', JStr ''FI''), (''iso3'', JStr ''FIN''),
                          (''history'', JObj [(''2021-01-01'', JInt 3)])]),
      (''France'', JObj [(''iso2'', JStr ''FR''), (''iso3'', JStr ''FRA''),
                         (''history'', JObj [(''2021-01-01'', JInt 5)])])]"

definition ex_history_broken :: json where
  "ex_history_broken = JObj
     [(''Diamond Princess'', JObj [(''history'', JObj [])]),
      (''France'', JObj [(''iso2'', JStr ''FR''), (''iso3'', JStr ''FRA''),
                         (''history'', JObj [(''2021-01-01'', JInt 5)])])]"

definition ex_california :: json where
  "ex_california = JObj [(''history'', JObj [(''2021-01-01'', JInt 7)])]"

definition ex_us_region :: json where
  "ex_us_region = JObj
     [(''US'', JObj [(''iso2'', JStr ''US''), (''iso3'', JStr ''USA''),
                     (''regions'', JObj [(''California'', ex_california)])])]"

definition ex_ontario :: json where
  "ex_ontario = JObj [(''history'', JObj [(''2021-01-01'', JInt 2)])]"

definition ex_region :: json where
  "ex_region = JObj
     [(''Canada'', JObj [(''iso2'', JStr ''CA''), (''iso3'', JStr ''CAN''),
                         (''regions'', JObj [(''Ontario'', ex_ontario)])])]"

definition ex_conakry :: json where
  "ex_conakry = JObj [(''history'', JObj [(''2021-01-01'', JInt 4)])]"

definition ex_morobe :: json where
  "ex_morobe = JObj [(''history'', JObj [(''2021-01-01'', JInt 9)])]"

definition ex_guinea_region :: json where
  "ex_guinea_region = JObj
     [(''Guinea'', JObj [(''iso2'', JStr ''GN''), (''iso3'', JStr ''GIN''),
                         (''regions'', JObj [(''Conakry'', ex_conakry)])]),
      (''Papua New Guinea'', JObj [(''iso2'', JStr ''PG''), (''iso3'', JStr ''PNG''),
                                   (''regions'', JObj [(''Morobe'', ex_morobe)])])]"


text \<open>A loader that has one document under every name, one that has the two regional
  files of a data type, and one that has no file at all.\<close>

definition ex_loader :: "json \<Rightarrow> loader" where
  "ex_loader doc name = Inr doc"

definition ex_region_loader :: loader where
  "ex_region_loader name =
     (if name = ''csv_confirmed_us_region.json'' then Inr ex_us_region
      else if name = ''csv_confirmed_region.json'' then Inr ex_region
      else Inl (OtherError ''FileNotFoundError'' name))"



section \<open>Basic facts\<close>

lemma try_bind_simps [simp]:
  "try_bind (Inl e) f = Inl e" "try_bind (Inr x) f = f x"
  by (simp_all add: try_bind_def)

lemma try_bind_Inr_iff: "try_bind m f = Inr y \<longleftrightarrow> (\<exists>x. m = Inr x \<and> f x = Inr y)"
  by (cases m) auto

lemma try_bind_Inl_iff: "try_bind m f = Inl e \<longleftrightarrow> m = Inl e \<or> (\<exists>x. m = Inr x \<and> f x = Inl e)"
  by (cases m) auto

lemma py_getitem_Inl: "py_getitem j k = Inl x \<Longrightarrow> x = KeyError k \<or> x = TypeError"
  by (cases j) (auto split: option.splits)

lemma all_country_fields_Inl:
  "all_country_fields e = Inl x \<Longrightarrow> \<not> is_CountryNotFound x"
  by (auto simp: all_country_fields_def try_bind_Inl_iff dest!: py_getitem_Inl)

lemma keyed_fields_Inl:
  "keyed_fields data k = Inl x \<Longrightarrow> \<not> is_CountryNotFound x \<and> \<not> is_RegionNotFound x"
  by (auto simp: keyed_fields_def try_bind_Inl_iff dest!: py_getitem_Inl)

lemma all_country_loop_first:
  "\<forall>x\<in>set pre. all_country_test pm q x = Inr False \<Longrightarrow> all_country_test pm q e = Inr True \<Longrightarrow>
   all_country_loop pm q (pre @ e # post) = Inr (Jsonify e)"
  by (induction pre) auto

lemma all_country_loop_none:
  "\<forall>x\<in>set es. all_country_test pm q x = Inr False \<Longrightarrow>
   all_country_loop pm q es = Inl (CountryNotFound not_found_message)"
  by (induction es) auto

lemma all_country_loop_raise:
  "\<forall>x\<in>set pre. all_country_test pm q x = Inr False \<Longrightarrow> all_country_test pm q e = Inl x \<Longrightarrow>
   all_country_loop pm q (pre @ e # post) = Inl x"
  by (induction pre) auto

lemma history_country_loop_first:
  "\<forall>x\<in>set pre. keyed_test pm q data x = Inr False \<Longrightarrow> keyed_test pm q data k = Inr True \<Longrightarrow>
   history_country_loop pm q data (pre @ k # post) = try_bind (py_getitem data k) (\<lambda>v. Inr (Jsonify v))"
  by (induction pre) auto

lemma history_country_loop_none:
  "\<forall>x\<in>set ks. keyed_test pm q data x = Inr False \<Longrightarrow>
   history_country_loop pm q data ks = Inl (CountryNotFound not_found_message)"
  by (induction ks) auto

lemma history_country_loop_raise:
  "\<forall>x\<in>set pre. keyed_test pm q data x = Inr False \<Longrightarrow> keyed_test pm q data k = Inl x \<Longrightarrow>
   history_country_loop pm q data (pre @ k # post) = Inl x"
  by (induction pre) auto

lemma keyed_test_True_getitem:
  "keyed_test pm q data k = Inr b \<Longrightarrow> \<exists>ent. py_getitem data k = Inr ent"
  by (auto simp: keyed_test_def keyed_fields_def try_bind_Inr_iff)

lemma all_country_test_fields_Inl:
  "all_country_fields e = Inl x \<Longrightarrow> all_country_test pm q e = Inl x"
  by (simp add: all_country_test_def)

lemma keyed_test_fields_Inl:
  "keyed_fields data k = Inl x \<Longrightarrow> keyed_test pm q data k = Inl x"
  by (simp add: keyed_test_def)


section \<open>Country resolution\<close>

text \<open>
  Claim C3. \<^verbatim>\<open>all_country\<close> walks the entities of \<^verbatim>\<open>data.json\<close> in stored order and
  \<^verbatim>\<open>history_country\<close> the keys of \<^verbatim>\<open>csv_<data_type>.json\<close> in insertion order. Each
  returns the first entity on which the condition of the \<^verbatim>\<open>if\<close> holds (the matcher
  succeeds against name, iso2 and iso3, the earlier entities having been rejected), whatever
  follows it in the snapshot; when the condition fails on every entity, the response is the
  404 error of \<^verbatim>\<open>CountryNotFound\<close>.
\<close>

theorem resolve_country_first_match:
  "(read_json ''data.json'' = Inr data \<longrightarrow> py_iter data = Inr (pre @ e # post) \<longrightarrow>
      (\<forall>x\<in>set pre. all_country_test pm q x = Inr False) \<longrightarrow>
      all_country_test pm q e = Inr True \<longrightarrow>
      all_country pm read_json q = Jsonify e) \<and>
   (read_json ''data.json'' = Inr data \<longrightarrow> py_iter data = Inr es \<longrightarrow>
      (\<forall>x\<in>set es. all_country_test pm q x = Inr False) \<longrightarrow>
      all_country pm read_json q = ResponseError (CountryNotFound not_found_message) 404) \<and>
   (read_json (''csv_'' @ dt @ ''.json'') = Inr hdata \<longrightarrow> py_keys hdata = Inr (kpre @ k # kpost) \<longrightarrow>
      (\<forall>x\<in>set kpre. keyed_test pm q hdata x = Inr False) \<longrightarrow>
      keyed_test pm q hdata k = Inr True \<longrightarrow>
      (\<exists>ent. py_getitem hdata k = Inr ent \<and> history_country pm read_json dt q = Jsonify ent)) \<and>
   (read_json (''csv_'' @ dt @ ''.json'') = Inr hdata \<longrightarrow> py_keys hdata = Inr ks \<longrightarrow>
      (\<forall>x\<in>set ks. keyed_test pm q hdata x = Inr False) \<longrightarrow>
      history_country pm read_json dt q = ResponseError (CountryNotFound not_found_message) 404)"
proof (intro conjI impI)
  assume "read_json ''data.json'' = Inr data" "py_iter data = Inr (pre @ e # post)"
    "\<forall>x\<in>set pre. all_country_test pm q x = Inr False" "all_country_test pm q e = Inr True"
  then show "all_country pm read_json q = Jsonify e"
    by (simp add: all_country_def catch_not_found_def all_country_loop_first)
next
  assume "read_json ''data.json'' = Inr data" "py_iter data = Inr es"
    "\<forall>x\<in>set es. all_country_test pm q x = Inr False"
  then show "all_country pm read_json q = ResponseError (CountryNotFound not_found_message) 404"
    by (simp add: all_country_def catch_not_found_def all_country_loop_none response_error_def)
next
  assume a: "read_json (''csv_'' @ dt @ ''.json'') = Inr hdata" "py_keys hdata = Inr (kpre @ k # kpost)"
    "\<forall>x\<in>set kpre. keyed_test pm q hdata x = Inr False" "keyed_test pm q hdata k = Inr True"
  from a(4) obtain ent where ent: "py_getitem hdata k = Inr ent"
    using keyed_test_True_getitem by blast
  with a have "history_country pm read_json dt q = Jsonify ent"
    by (simp add: history_country_def catch_not_found_def history_country_loop_first)
  with ent show "\<exists>ent. py_getitem hdata k = Inr ent \<and> history_country pm read_json dt q = Jsonify ent"
    by blast
next
  assume "read_json (''csv_'' @ dt @ ''.json'') = Inr hdata" "py_keys hdata = Inr ks"
    "\<forall>x\<in>set ks. keyed_test pm q hdata x = Inr False"
  then show "history_country pm read_json dt q = ResponseError (CountryNotFound not_found_message) 404"
    by (simp add: history_country_def catch_not_found_def history_country_loop_none response_error_def)
qed


theorem resolve_country_first_match_witness:
  "all_country_test pattern_match_json ''fr'' ex_finland = Inr False \<and>
   all_country_test pattern_match_json ''fr'' ex_france = Inr True \<and>
   all_country_test pattern_match_json ''fr'' ex_guiana = Inr True \<and>
   all_country pattern_match_json (ex_loader (JList [ex_finland, ex_france, ex_guiana])) ''fr''
     = Jsonify ex_france \<and>
   all_country pattern_match_json (ex_loader (JList [ex_finland, ex_france, ex_guiana])) ''germany''
     = ResponseError (CountryNotFound not_found_message) 404 \<and>
   history_country pattern_match_json (ex_loader ex_history) ''confirmed'' ''f''
     = Jsonify (JObj [(''iso2'', JStr ''FI''), (''iso3'', JStr ''FIN''),
                      (''history'', JObj [(''2021-01-01'', JInt 3)])]) \<and>
   history_country pattern_match_json (ex_loader ex_history) ''confirmed'' ''germany''
     = ResponseError (CountryNotFound not_found_message) 404"
proof -
  let ?D = "JList [ex_finland, ex_france, ex_guiana]"
  have l1: "ex_loader ?D ''data.json'' = Inr ?D"
    and l2: "ex_loader ex_history (''csv_'' @ ''confirmed'' @ ''.json'') = Inr ex_history"
    by (simp_all add: ex_loader_def)
  have i1: "py_iter ?D = Inr ([ex_finland] @ ex_france # [ex_guiana])"
    and i2: "py_iter ?D = Inr [ex_finland, ex_france, ex_guiana]"
    by simp_all
  have k1: "py_keys ex_history = Inr ([] @ ''Finland'' # [''France''])"
    and k2: "py_keys ex_history = Inr [''Finland'', ''France'']"
    by (simp_all add: ex_history_def)
  have t1: "\<forall>x\<in>set [ex_finland]. all_country_test pattern_match_json ''fr'' x = Inr False"
    by code_simp
  have t2: "all_country_test pattern_match_json ''fr'' ex_france = Inr True"
    by code_simp
  have t3: "all_country_test pattern_match_json ''fr'' ex_guiana = Inr True"
    by code_simp
  have t4: "\<forall>x\<in>set [ex_finland, ex_france, ex_guiana].
              all_country_test pattern_match_json ''germany'' x = Inr False"
    by code_simp
  have t5: "\<forall>x\<in>set []. keyed_test pattern_match_json ''f'' ex_history x = Inr False"
    by simp
  have t6: "keyed_test pattern_match_json ''f'' ex_history ''Finland'' = Inr True"
    by code_simp
  have t7: "\<forall>x\<in>set [''Finland'', ''France''].
              keyed_test pattern_match_json ''germany'' ex_history x = Inr False"
    by code_simp
  have g: "py_getitem ex_history ''Finland'' = Inr (JObj [(''iso2'', JStr ''FI''), (''iso3'', JStr ''FIN''),
                      (''history'', JObj [(''2021-01-01'', JInt 3)])])"
    by code_simp
  note a = resolve_country_first_match [of "ex_loader ?D" ?D "[ex_finland]" ex_france "[ex_guiana]"
      pattern_match_json "''fr''" "[]" "''confirmed''" ex_history "[]" "''Finland''" "[''France'']" "[]"]
  note b = resolve_country_first_match [of "ex_loader ?D" ?D "[]" ex_france "[]"
      pattern_match_json "''germany''" "[ex_finland, ex_france, ex_guiana]" "''confirmed''" ex_history
      "[]" "''Finland''" "[''France'']" "[''Finland'', ''France'']"]
  note c = resolve_country_first_match [of "ex_loader ex_history" ?D "[]" ex_france "[]"
      pattern_match_json "''f''" "[]" "''confirmed''" ex_history "[]" "''Finland''" "[''France'']" "[]"]
  note d = resolve_country_first_match [of "ex_loader ex_history" ?D "[]" ex_france "[]"
      pattern_match_json "''germany''" "[]" "''confirmed''" ex_history "[]" "''Finland''" "[''France'']"
      "[''Finland'', ''France'']"]
  have r1: "all_country pattern_match_json (ex_loader ?D) ''fr'' = Jsonify ex_france"
    using a l1 i1 t1 t2 by blast
  have r2: "all_country pattern_match_json (ex_loader ?D) ''germany''
     = ResponseError (CountryNotFound not_found_message) 404"
    using b l1 i2 t4 by blast
  have r3: "history_country pattern_match_json (ex_loader ex_history) ''confirmed'' ''f''
     = Jsonify (JObj [(''iso2'', JStr ''FI''), (''iso3'', JStr ''FIN''),
                      (''history'', JObj [(''2021-01-01'', JInt 3)])])"
    using c l2 k1 t5 t6 g by auto
  have r4: "history_country pattern_match_json (ex_loader ex_history) ''confirmed'' ''germany''
     = ResponseError (CountryNotFound not_found_message) 404"
    using d l2 k2 t7 by blast
  from t1 t2 t3 r1 r2 r3 r4 show ?thesis by simp
qed


text \<open>
  Claim C10. When the scan of \<^verbatim>\<open>all_country\<close> or \<^verbatim>\<open>history_country\<close> has rejected the
  earlier entities and reaches one whose field access raises, the response is the error
  with status 500 that carries the raised exception, whatever the rest of the snapshot
  holds; an entity object without \<^verbatim>\<open>iso2\<close>, or with \<^verbatim>\<open>iso2\<close> and without \<^verbatim>\<open>iso3\<close>, raises the
  \<^verbatim>\<open>KeyError\<close> of that key.
\<close>

theorem scan_error_before_match:
  "(read_json ''data.json'' = Inr data \<longrightarrow> py_iter data = Inr (pre @ e # post) \<longrightarrow>
      (\<forall>x\<in>set pre. all_country_test pm q x = Inr False) \<longrightarrow>
      all_country_fields e = Inl x \<longrightarrow>
      all_country pm read_json q = ResponseError x 500) \<and>
   (read_json (''csv_'' @ dt @ ''.json'') = Inr hdata \<longrightarrow> py_keys hdata = Inr (kpre @ k # kpost) \<longrightarrow>
      (\<forall>x\<in>set kpre. keyed_test pm q hdata x = Inr False) \<longrightarrow>
      keyed_fields hdata k = Inl y \<longrightarrow>
      history_country pm read_json dt q = ResponseError y 500) \<and>
   (map_of kvs ''country'' \<noteq> None \<longrightarrow> map_of kvs ''iso2'' = None \<longrightarrow>
      all_country_fields (JObj kvs) = Inl (KeyError ''iso2'')) \<and>
   (map_of kvs ''country'' \<noteq> None \<longrightarrow> map_of kvs ''iso2'' \<noteq> None \<longrightarrow> map_of kvs ''iso3'' = None \<longrightarrow>
      all_country_fields (JObj kvs) = Inl (KeyError ''iso3'')) \<and>
   (py_getitem hdata k = Inr (JObj kvs) \<longrightarrow> map_of kvs ''iso2'' = None \<longrightarrow>
      keyed_fields hdata k = Inl (KeyError ''iso2'')) \<and>
   (py_getitem hdata k = Inr (JObj kvs) \<longrightarrow> map_of kvs ''iso2'' \<noteq> None \<longrightarrow> map_of kvs ''iso3'' = None \<longrightarrow>
      keyed_fields hdata k = Inl (KeyError ''iso3''))"
proof (intro conjI impI)
  assume a: "read_json ''data.json'' = Inr data" "py_iter data = Inr (pre @ e # post)"
    "\<forall>x\<in>set pre. all_country_test pm q x = Inr False" "all_country_fields e = Inl x"
  from a(4) have "\<not> is_CountryNotFound x" by (rule all_country_fields_Inl)
  with a show "all_country pm read_json q = ResponseError x 500"
    by (simp add: all_country_def catch_not_found_def all_country_loop_raise
        all_country_test_fields_Inl response_error_def)
next
  assume a: "read_json (''csv_'' @ dt @ ''.json'') = Inr hdata" "py_keys hdata = Inr (kpre @ k # kpost)"
    "\<forall>x\<in>set kpre. keyed_test pm q hdata x = Inr False" "keyed_fields hdata k = Inl y"
  from a(4) have "\<not> is_CountryNotFound y" using keyed_fields_Inl by blast
  with a show "history_country pm read_json dt q = ResponseError y 500"
    by (simp add: history_country_def catch_not_found_def history_country_loop_raise
        keyed_test_fields_Inl response_error_def)
qed (auto simp: all_country_fields_def keyed_fields_def)

theorem scan_error_before_match_witness:
  "all_country_fields ex_no_iso = Inl (KeyError ''iso2'') \<and>
   all_country_test pattern_match_json ''fr'' ex_france = Inr True \<and>
   all_country pattern_match_json (ex_loader (JList [ex_finland, ex_no_iso, ex_france])) ''fr''
     = ResponseError (KeyError ''iso2'') 500 \<and>
   keyed_test pattern_match_json ''fr'' ex_history_broken ''France'' = Inr True \<and>
   history_country pattern_match_json (ex_loader ex_history_broken) ''confirmed'' ''fr''
     = ResponseError (KeyError ''iso2'') 500"
proof -
  let ?D = "JList [ex_finland, ex_no_iso, ex_france]"
  let ?kvs = "[(''country'', JStr ''Diamond Princess'')]"
  let ?hkvs = "[(''history'', JObj [])]"
  have l1: "ex_loader ?D ''data.json'' = Inr ?D"
    and l2: "ex_loader ex_history_broken (''csv_'' @ ''confirmed'' @ ''.json'') = Inr ex_history_broken"
    by (simp_all add: ex_loader_def)
  have i1: "py_iter ?D = Inr ([ex_finland] @ ex_no_iso # [ex_france])"
    by simp
  have k1: "py_keys ex_history_broken = Inr ([] @ ''Diamond Princess'' # [''France''])"
    by (simp add: ex_history_broken_def)
  have t1: "\<forall>x\<in>set [ex_finland]. all_country_test pattern_match_json ''fr'' x = Inr False"
    by code_simp
  have t2: "all_country_test pattern_match_json ''fr'' ex_france = Inr True"
    by code_simp
  have t3: "keyed_test pattern_match_json ''fr'' ex_history_broken ''France'' = Inr True"
    by code_simp
  have t5: "\<forall>x\<in>set []. keyed_test pattern_match_json ''fr'' ex_history_broken x = Inr False"
    by simp
  have m1: "map_of ?kvs ''country'' \<noteq> None" and m2: "map_of ?kvs ''iso2'' = None"
    and m3: "map_of ?hkvs ''iso2'' = None"
    by simp_all
  have g: "py_getitem ex_history_broken ''Diamond Princess'' = Inr (JObj ?hkvs)"
    by code_simp
  note a = scan_error_before_match [of "ex_loader ?D" ?D "[ex_finland]" ex_no_iso "[ex_france]"
      pattern_match_json "''fr''" "KeyError ''iso2''" "''confirmed''" ex_history_broken
      "[]" "''Diamond Princess''" "[''France'']" "KeyError ''iso2''" ?kvs]
  note b = scan_error_before_match [of "ex_loader ex_history_broken" ?D "[ex_finland]" ex_no_iso "[ex_france]"
      pattern_match_json "''fr''" "KeyError ''iso2''" "''confirmed''" ex_history_broken
      "[]" "''Diamond Princess''" "[''France'']" "KeyError ''iso2''" ?hkvs]
  have f1: "all_country_fields ex_no_iso = Inl (KeyError ''iso2'')"
    using a m1 m2 by (simp add: ex_no_iso_def)
  have f2: "keyed_fields ex_history_broken ''Diamond Princess'' = Inl (KeyError ''iso2'')"
    using b g m3 by blast
  have r1: "all_country pattern_match_json (ex_loader ?D) ''fr'' = ResponseError (KeyError ''iso2'') 500"
    using a l1 i1 t1 f1 by blast
  have r2: "history_country pattern_match_json (ex_loader ex_history_broken) ''confirmed'' ''fr''
     = ResponseError (KeyError ''iso2'') 500"
    using b l2 k1 t5 f2 by blast
  from f1 t2 t3 r1 r2 show ?thesis by simp
qed

section \<open>World totals\<close>

subsection \<open>The accumulator\<close>

lemma dict_add_keys: "map fst (dict_add ret h n) = map fst ret"
  by (induction ret) (auto simp: dict_add_def)

lemma map_of_dict_add:
  "map_of (dict_add ret h n) k =
     (if k = h then map_option (\<lambda>m. m + n) (map_of ret k) else map_of ret k)"
  by (induction ret) (auto simp: dict_add_def)

lemma lookup0_append:
  "h \<notin> set (map fst ret) \<Longrightarrow>
   lookup0 (ret @ [(h, n)]) k = lookup0 ret k + (if k = h then n else 0)"
  by (force simp: lookup0_def map_add_def split: option.splits dest!: map_of_SomeD)

lemma lookup0_dict_add:
  "h \<in> set (map fst ret) \<Longrightarrow>
   lookup0 (dict_add ret h n) k = lookup0 ret k + (if k = h then n else 0)"
  by (force simp: lookup0_def map_of_dict_add map_of_eq_None_iff split: option.splits)

lemma inner_contrib_Nil [simp]: "inner_contrib data d [] k = 0"
  by (simp add: inner_contrib_def)

lemma inner_contrib_Cons [simp]:
  "inner_contrib data d (h # hs) k =
     (if h = k then count0 data d h else 0) + inner_contrib data d hs k"
  by (simp add: inner_contrib_def)

lemma world_inner_isl:
  "isl (world_inner data d hs ret) \<longleftrightarrow> (\<exists>h\<in>set hs. isl (world_count data d h))"
  by (induction hs arbitrary: ret) (auto split: sum.splits)

lemma world_inner_Inr:
  "world_inner data d hs ret = Inr ret' \<Longrightarrow> distinct (map fst ret) \<Longrightarrow>
   distinct (map fst ret') \<and> set (map fst ret') = set (map fst ret) \<union> set hs \<and>
   (\<forall>k. lookup0 ret' k = lookup0 ret k + inner_contrib data d hs k)"
proof (induction hs arbitrary: ret)
  case Nil
  then show ?case by simp
next
  case (Cons h hs)
  from Cons.prems(1) obtain n where n: "world_count data d h = Inr n"
    by (cases "world_count data d h") (auto split: if_splits)
  then have c: "count0 data d h = n" by (simp add: count0_def)
  show ?case
  proof (cases "h \<in> set (map fst ret)")
    case True
    with Cons.prems n have r: "world_inner data d hs (dict_add ret h n) = Inr ret'" by simp
    have "distinct (map fst (dict_add ret h n))" using Cons.prems(2) by (simp add: dict_add_keys)
    from Cons.IH [OF r this] True show ?thesis
      by (auto simp: dict_add_keys lookup0_dict_add c)
  next
    case False
    with Cons.prems n have r: "world_inner data d hs (ret @ [(h, n)]) = Inr ret'" by simp
    have "distinct (map fst (ret @ [(h, n)]))" using Cons.prems(2) False by simp
    from Cons.IH [OF r this] False show ?thesis
      by (auto simp: lookup0_append c)
  qed
qed

lemma entity_ok_alt:
  "entity_ok data d \<longleftrightarrow>
     (\<exists>hs. try_bind (history_of data d) py_keys = Inr hs \<and> \<not> isl (world_inner data d hs ret))"
  by (auto simp: entity_ok_def world_inner_isl split: sum.splits)

lemma world_outer_isl:
  "isl (world_outer data ds ret) \<longleftrightarrow> (\<exists>d\<in>set ds. \<not> entity_ok data d)"
proof (induction ds arbitrary: ret)
  case Nil
  then show ?case by simp
next
  case (Cons d ds)
  show ?case
  proof (cases "try_bind (history_of data d) py_keys")
    case (Inl e)
    then show ?thesis by (simp add: entity_ok_def)
  next
    case (Inr hs)
    show ?thesis
    proof (cases "world_inner data d hs ret")
      case (Inl e)
      then have "isl (world_inner data d hs ret)" by simp
      with Inr have "\<not> entity_ok data d"
        by (auto simp: entity_ok_def world_inner_isl)
      with Inr Inl show ?thesis by simp
    next
      case r: (Inr ret1)
      then have "\<not> isl (world_inner data d hs ret)" by simp
      with Inr have "entity_ok data d"
        by (auto simp: entity_ok_def world_inner_isl)
      with Inr r Cons.IH [of ret1] show ?thesis by simp
    qed
  qed
qed

lemma dates_of_Inr: "try_bind (history_of data d) py_keys = Inr hs \<Longrightarrow> dates_of data d = hs"
  by (simp add: dates_of_def)

lemma world_outer_Inr:
  "world_outer data ds ret = Inr ret' \<Longrightarrow> distinct (map fst ret) \<Longrightarrow>
   distinct (map fst ret') \<and>
   set (map fst ret') = set (map fst ret) \<union> (\<Union>d\<in>set ds. set (dates_of data d)) \<and>
   (\<forall>k. lookup0 ret' k = lookup0 ret k + (\<Sum>d\<leftarrow>ds. inner_contrib data d (dates_of data d) k))"
proof (induction ds arbitrary: ret)
  case Nil
  then show ?case by simp
next
  case (Cons d ds)
  from Cons.prems(1) obtain hs where hs: "try_bind (history_of data d) py_keys = Inr hs"
    by (cases "try_bind (history_of data d) py_keys") auto
  with Cons.prems(1) obtain ret1 where r1: "world_inner data d hs ret = Inr ret1"
    and r2: "world_outer data ds ret1 = Inr ret'"
    by (cases "world_inner data d hs ret") auto
  note i = world_inner_Inr [OF r1 Cons.prems(2)]
  from i have "distinct (map fst ret1)" by simp
  note o = Cons.IH [OF r2 this]
  have dd: "dates_of data d = hs" using hs by (rule dates_of_Inr)
  show ?case
  proof (intro conjI allI)
    show "distinct (map fst ret')" using o by simp
    show "set (map fst ret') = set (map fst ret) \<union> (\<Union>d\<in>set (d # ds). set (dates_of data d))"
      using o i dd by auto
    fix k
    show "lookup0 ret' k = lookup0 ret k + (\<Sum>d\<leftarrow>d # ds. inner_contrib data d (dates_of data d) k)"
      using o i dd by simp
  qed
qed


lemma py_getitem_distinct:
  "distinct (map fst kvs) \<Longrightarrow> (k, v) \<in> set kvs \<Longrightarrow> py_getitem (JObj kvs) k = Inr v"
  by simp

lemma world_ret_sums:
  "world_sums (Jsonify (world_ret ret)) = Some (map_option JInt \<circ> map_of ret)"
proof -
  have "map_of (map (\<lambda>(h, n). (h, JInt n)) ret) = map_option JInt \<circ> map_of ret"
    by (induction ret) (auto simp: fun_eq_iff)
  then show ?thesis by (simp add: world_ret_def)
qed

lemma map_of_lookup0:
  "map_of ret h = (if h \<in> set (map fst ret) then Some (lookup0 ret h) else None)"
  by (auto simp: lookup0_def map_of_eq_None_iff split: option.splits)

lemma history_region_world_unfold:
  "read_json (''csv_'' @ dt @ ''.json'') = Inr (JObj data) \<Longrightarrow>
   history_region_world read_json dt =
     catch_all (try_bind (world_outer (JObj data) (map fst data) [])
                  (\<lambda>ret. Inr (Jsonify (world_ret ret))))"
  by (simp add: history_region_world_def)

lemma history_region_world_ok:
  "read_json (''csv_'' @ dt @ ''.json'') = Inr (JObj data) \<Longrightarrow>
   world_outer (JObj data) (map fst data) [] = Inr ret \<Longrightarrow>
   history_region_world read_json dt = Jsonify (world_ret ret)"
  by (simp add: history_region_world_unfold catch_all_def)

lemma history_region_world_fail:
  "read_json (''csv_'' @ dt @ ''.json'') = Inr (JObj data) \<Longrightarrow>
   world_outer (JObj data) (map fst data) [] = Inl e \<Longrightarrow>
   history_region_world read_json dt = ResponseError e 500"
  by (simp add: history_region_world_unfold catch_all_def response_error_def)

lemma count0_entity:
  "py_getitem data d = Inr ent \<Longrightarrow> count0 data d h = entity_count ent h"
  by (simp add: count0_def entity_count_def world_count_def history_of_def)

lemma dates_of_entity:
  "py_getitem data d = Inr ent \<Longrightarrow> set (dates_of data d) = entity_dates ent"
  by (simp add: dates_of_def entity_dates_def history_of_def split: sum.splits)

lemma inner_contrib_distinct:
  "distinct hs \<Longrightarrow>
   inner_contrib data d hs h = (if h \<in> set hs then count0 data d h else 0)"
  by (induction hs) auto

lemma wf_entity_ok:
  assumes "py_getitem data d = Inr ent" "wf_entity ent"
  shows "entity_ok data d"
proof -
  from assms(2) obtain hs where hs: "py_getitem ent ''history'' = Inr (JObj hs)"
    and ok: "list_all (\<lambda>kv. \<not> isl (py_int (snd kv))) hs"
    by (auto simp: wf_entity_def split: sum.splits json.splits)
  have "\<not> isl (world_count data d h)" if "h \<in> set (map fst hs)" for h
  proof -
    from that obtain v where "map_of hs h = Some v"
      by (metis map_of_eq_None_iff not_Some_eq set_map)
    moreover from this have "(h, v) \<in> set hs" by (rule map_of_SomeD)
    with ok have "\<not> isl (py_int v)" by (auto simp: list_all_iff)
    ultimately show ?thesis using assms(1) hs
      by (simp add: world_count_def history_of_def)
  qed
  with assms(1) hs show ?thesis
    by (simp add: entity_ok_def history_of_def)
qed

lemma wf_entity_contrib:
  assumes "py_getitem data d = Inr ent" "wf_entity ent"
  shows "inner_contrib data d (dates_of data d) h = entity_count ent h"
proof -
  from assms(2) obtain hs where hs: "py_getitem ent ''history'' = Inr (JObj hs)"
    and dist: "distinct (map fst hs)"
    by (auto simp: wf_entity_def split: sum.splits json.splits)
  from assms(1) hs have d: "dates_of data d = map fst hs"
    by (simp add: dates_of_def history_of_def)
  have "entity_count ent h = 0" if "h \<notin> set (map fst hs)"
  proof -
    from that have "map_of hs h = None" by (simp add: map_of_eq_None_iff)
    with hs show ?thesis by (simp add: entity_count_def)
  qed
  with dist d show ?thesis
    by (simp add: inner_contrib_distinct count0_entity [OF assms(1)])
qed


lemma world_cong:
  assumes "\<And>d. py_getitem D' d = py_getitem D d"
  shows "world_outer D' ds ret = world_outer D ds ret"
proof -
  have h: "history_of D' d = history_of D d" for d
    by (simp add: history_of_def assms)
  have c: "world_count D' d k = world_count D d k" for d k
    by (simp add: world_count_def h)
  have i: "world_inner D' d hs r = world_inner D d hs r" for d hs r
    by (induction hs arbitrary: r) (auto simp: c split: sum.splits)
  show ?thesis
    by (induction ds arbitrary: ret) (auto simp: h i split: sum.splits)
qed

lemma sum_list_mset_cong:
  fixes f :: "'a \<Rightarrow> int"
  shows "mset xs = mset ys \<Longrightarrow> sum_list (map f xs) = sum_list (map f ys)"
  by (metis mset_map sum_mset_sum_list)

lemma world_outer_perm:
  assumes p: "mset ks' = mset ks"
  shows "(case (world_outer D ks [], world_outer D ks' []) of
            (Inr r, Inr r') \<Rightarrow> map_of r = map_of r'
          | (Inl e, Inl e') \<Rightarrow> True
          | _ \<Rightarrow> False)"
proof -
  from p have s: "set ks' = set ks" by (rule mset_eq_setD)
  then have f: "isl (world_outer D ks' []) = isl (world_outer D ks [])"
    by (simp add: world_outer_isl)
  show ?thesis
  proof (cases "world_outer D ks []")
    case (Inl e)
    with f show ?thesis by (cases "world_outer D ks' []") auto
  next
    case (Inr r)
    with f obtain r' where r': "world_outer D ks' [] = Inr r'"
      by (cases "world_outer D ks' []") auto
    note a = world_outer_Inr [OF Inr] and b = world_outer_Inr [OF r']
    have k: "set (map fst r') = set (map fst r)" using a b s by simp
    have "lookup0 r' h = lookup0 r h" for h
      using a b sum_list_mset_cong [OF p, of "\<lambda>d. inner_contrib D d (dates_of D d) h"]
      by simp
    with k have "map_of r = map_of r'"
      by (auto simp: fun_eq_iff map_of_lookup0 simp del: set_map)
    with Inr r' show ?thesis by simp
  qed
qed




subsection \<open>The sums\<close>

text \<open>
  Claim C2. For a per-country history snapshot whose entities each hold a \<^verbatim>\<open>history\<close>
  object with counts that \<^verbatim>\<open>int()\<close> accepts, \<^verbatim>\<open>history_region_world\<close> returns
  \<^verbatim>\<open>{"history": ret}\<close> where every date of every entity is a key of \<open>ret\<close> exactly once, no
  other key occurs, and each date is mapped to the sum, over all entities, of the entity's
  count for that date as an integer (an entity without the date adds nothing). The
  snapshot of section 8, with the strings "10" and "5" on one date, gives 15.
\<close>

theorem aggregate_world_sums:
  assumes load: "read_json (''csv_'' @ dt @ ''.json'') = Inr (JObj data)"
    and dist: "distinct (map fst data)"
    and wf: "\<forall>ent\<in>snd ` set data. wf_entity ent"
  shows "\<exists>ret. history_region_world read_json dt = Jsonify (JObj [(''history'', JObj ret)]) \<and>
           distinct (map fst ret) \<and>
           set (map fst ret) = (\<Union>ent\<in>snd ` set data. entity_dates ent) \<and>
           (\<forall>h\<in>set (map fst ret).
              map_of ret h = Some (JInt (\<Sum>kv\<leftarrow>data. entity_count (snd kv) h)))"
proof -
  let ?D = "JObj data"
  have get: "py_getitem ?D (fst kv) = Inr (snd kv)" if "kv \<in> set data" for kv
    using that dist by (metis py_getitem_distinct prod.collapse)
  have "entity_ok ?D d" if "d \<in> set (map fst data)" for d
  proof -
    from that obtain kv where kv: "kv \<in> set data" "d = fst kv" by auto
    with wf have "wf_entity (snd kv)" by auto
    with get [OF kv(1)] kv(2) show ?thesis by (auto intro: wf_entity_ok)
  qed
  then have "\<not> isl (world_outer ?D (map fst data) [])"
    by (simp add: world_outer_isl)
  then obtain ret0 where ret0: "world_outer ?D (map fst data) [] = Inr ret0"
    by (cases "world_outer ?D (map fst data) []") auto
  from world_outer_Inr [OF ret0]
  have d0: "distinct (map fst ret0)"
    and k0: "set (map fst ret0) = (\<Union>d\<in>set (map fst data). set (dates_of ?D d))"
    and v0: "\<And>k. lookup0 ret0 k = (\<Sum>d\<leftarrow>map fst data. inner_contrib ?D d (dates_of ?D d) k)"
    by (simp_all add: lookup0_def)
  let ?ret = "map (\<lambda>(h, n). (h, JInt n)) ret0"
  have fst_ret: "map fst ?ret = map fst ret0" by (induction ret0) auto
  have r: "history_region_world read_json dt = Jsonify (JObj [(''history'', JObj ?ret)])"
    using history_region_world_ok [of read_json dt data ret0] load ret0 by (simp add: world_ret_def)
  have keys: "(\<Union>d\<in>set (map fst data). set (dates_of ?D d)) = (\<Union>ent\<in>snd ` set data. entity_dates ent)"
    using get by (auto simp: dates_of_entity)
  have sums: "(\<Sum>d\<leftarrow>map fst data. inner_contrib ?D d (dates_of ?D d) h)
                = (\<Sum>kv\<leftarrow>data. entity_count (snd kv) h)" for h
  proof -
    have "map (\<lambda>d. inner_contrib ?D d (dates_of ?D d) h) (map fst data)
            = map (\<lambda>kv. entity_count (snd kv) h) data"
      using get wf by (auto simp: wf_entity_contrib)
    then show ?thesis by (simp only:)
  qed
  have vals: "map_of ?ret h = Some (JInt (\<Sum>kv\<leftarrow>data. entity_count (snd kv) h))"
    if "h \<in> set (map fst ?ret)" for h
  proof -
    have "map_of ?ret = map_option JInt \<circ> map_of ret0"
      by (induction ret0) (auto simp: fun_eq_iff)
    moreover from that have "h \<in> set (map fst ret0)" by (simp only: fst_ret)
    moreover have "lookup0 ret0 h = (\<Sum>kv\<leftarrow>data. entity_count (snd kv) h)"
      by (simp only: v0 sums)
    ultimately show ?thesis
      using map_of_lookup0 [of ret0 h] by simp
  qed
  from r d0 k0 keys vals show ?thesis
    by (intro exI [of _ ?ret]) (simp only: fst_ret, blast)
qed

theorem aggregate_world_sums_witness:
  "history_region_world (ex_loader ex_world) ''confirmed''
     = Jsonify (JObj [(''history'', JObj [(''2021-01-01'', JInt 15)])]) \<and>
   (\<exists>ret. history_region_world (ex_loader ex_world) ''confirmed''
            = Jsonify (JObj [(''history'', JObj ret)]) \<and>
          distinct (map fst ret) \<and>
          (\<forall>h\<in>set (map fst ret). map_of ret h
             = Some (JInt (entity_count (JObj [(''history'', JObj [(''2021-01-01'', JStr ''10'')])]) h
                         + entity_count (JObj [(''history'', JObj [(''2021-01-01'', JStr ''5'')])]) h))))"
proof -
  let ?data = "[(''US'', JObj [(''history'', JObj [(''2021-01-01'', JStr ''10'')])]),
                (''FR'', JObj [(''history'', JObj [(''2021-01-01'', JStr ''5'')])])]"
  have l: "ex_loader ex_world (''csv_'' @ ''confirmed'' @ ''.json'') = Inr (JObj ?data)"
    by (simp add: ex_loader_def ex_world_def)
  have d: "distinct (map fst ?data)" by simp
  have w: "\<forall>ent\<in>snd ` set ?data. wf_entity ent" by code_simp
  have v: "history_region_world (ex_loader ex_world) ''confirmed''
     = Jsonify (JObj [(''history'', JObj [(''2021-01-01'', JInt 15)])])"
    by code_simp
  from aggregate_world_sums [of "ex_loader ex_world" "''confirmed''" ?data] l d w v
  show ?thesis by simp
qed


text \<open>
  Claim C7. Two snapshots that hold the same entities in a different order give the same
  per-date mapping; if one of them makes \<^verbatim>\<open>history_region_world\<close> fail, so does the other.
\<close>

theorem aggregate_world_order_independent:
  assumes dist: "distinct (map fst data)"
    and perm: "mset data' = mset data"
    and load: "read_json (''csv_'' @ dt @ ''.json'') = Inr (JObj data)"
    and load': "read_json' (''csv_'' @ dt @ ''.json'') = Inr (JObj data')"
  shows "world_sums (history_region_world read_json' dt)
           = world_sums (history_region_world read_json dt)"
proof -
  from perm have "mset (map fst data') = mset (map fst data)" by (metis mset_map)
  then have ks: "mset (map fst data') = mset (map fst data)"
    and dist': "distinct (map fst data')"
    using dist by (simp_all add: mset_eq_imp_distinct_iff [of "map fst data'" "map fst data"])
  from perm have "set data' = set data" by (rule mset_eq_setD)
  with dist dist' have "map_of data' = map_of data" by (simp add: map_of_inject_set)
  then have "py_getitem (JObj data') d = py_getitem (JObj data) d" for d by simp
  then have c: "world_outer (JObj data') ks ret = world_outer (JObj data) ks ret" for ks ret
    by (rule world_cong)
  note p = world_outer_perm [OF ks, of "JObj data"]
  show ?thesis
  proof (cases "world_outer (JObj data) (map fst data) []")
    case (Inl e)
    with p obtain e' where "world_outer (JObj data) (map fst data') [] = Inl e'"
      by (cases "world_outer (JObj data) (map fst data') []") auto
    with Inl show ?thesis
      using history_region_world_fail [of read_json dt data e] load
        history_region_world_fail [of read_json' dt data' e'] load'
      by (simp add: c)
  next
    case (Inr r)
    with p obtain r' where r': "world_outer (JObj data) (map fst data') [] = Inr r'"
      and m: "map_of r = map_of r'"
      by (cases "world_outer (JObj data) (map fst data') []") auto
    with Inr show ?thesis
      using history_region_world_ok [of read_json dt data r] load
        history_region_world_ok [of read_json' dt data' r'] load'
      by (simp add: c world_ret_sums)
  qed
qed

theorem aggregate_world_order_independent_witness:
  "world_sums (history_region_world (ex_loader ex_world_shuffled) ''confirmed'')
     = world_sums (history_region_world (ex_loader ex_world) ''confirmed'') \<and>
   history_region_world (ex_loader ex_world_shuffled) ''confirmed''
     = Jsonify (JObj [(''history'', JObj [(''2021-01-01'', JInt 15)])])"
proof -
  let ?us = "(''US'', JObj [(''history'', JObj [(''2021-01-01'', JStr ''10'')])])"
  let ?fr = "(''FR'', JObj [(''history'', JObj [(''2021-01-01'', JStr ''5'')])])"
  have d: "distinct (map fst [?us, ?fr])" by simp
  have p: "mset [?fr, ?us] = mset [?us, ?fr]" by (simp add: add_mset_commute)
  have l: "ex_loader ex_world (''csv_'' @ ''confirmed'' @ ''.json'') = Inr (JObj [?us, ?fr])"
    and l': "ex_loader ex_world_shuffled (''csv_'' @ ''confirmed'' @ ''.json'') = Inr (JObj [?fr, ?us])"
    by (simp_all add: ex_loader_def ex_world_def ex_world_shuffled_def)
  have v: "history_region_world (ex_loader ex_world_shuffled) ''confirmed''
     = Jsonify (JObj [(''history'', JObj [(''2021-01-01'', JInt 15)])])"
    by code_simp
  from aggregate_world_order_independent [of "[?us, ?fr]" "[?fr, ?us]" "ex_loader ex_world"
      "''confirmed''" "ex_loader ex_world_shuffled"] d p l l' v
  show ?thesis by simp
qed






section \<open>Regional lookup\<close>

lemma region_loop_None_iff:
  "region_loop rn data ic xs = Inr None \<longleftrightarrow> (\<forall>x\<in>set xs. \<exists>r. x = JStr r \<and> lower r \<noteq> lower rn)"
  by (induction xs) (auto simp: try_bind_Inr_iff split: json.splits)

lemma region_loop_Some:
  "region_loop rn data ic xs = Inr (Some v) \<Longrightarrow>
   \<exists>r. JStr r \<in> set xs \<and> lower r = lower rn \<and>
       (\<exists>rs. regions_of data ic = Inr rs \<and> py_getitem rs r = Inr v)"
  by (induction xs) (auto simp: try_bind_Inr_iff split: json.splits if_splits)

lemma region_loop_first:
  "\<forall>x\<in>set rpre. lower x \<noteq> lower rn \<Longrightarrow> lower r = lower rn \<Longrightarrow>
   region_loop rn data ic (map JStr rpre @ JStr r # map JStr rpost) =
     try_bind (regions_of data ic) (\<lambda>rs. try_bind (py_getitem rs r) (\<lambda>v. Inr (Some v)))"
  by (induction rpre) auto

lemma region_scan_none:
  "regions_of data k = Inr (JObj regs) \<Longrightarrow> \<forall>r\<in>set (map fst regs). lower r \<noteq> lower rn \<Longrightarrow>
   region_scan rn data k = Inr None"
  by (simp add: region_scan_def region_loop_None_iff)

lemma region_scan_first:
  assumes "regions_of data k = Inr (JObj regs)" "map fst regs = rpre @ r # rpost"
    "\<forall>x\<in>set rpre. lower x \<noteq> lower rn" "lower r = lower rn"
  shows "\<exists>v. map_of regs r = Some v \<and> region_scan rn data k = Inr (Some v)"
proof -
  from assms(2) have "r \<in> set (map fst regs)" by simp
  then obtain v where v: "map_of regs r = Some v"
    by (metis map_of_eq_None_iff not_Some_eq set_map)
  have "map (\<lambda>kv. JStr (fst kv)) regs = map JStr (map fst regs)" by simp
  then have it: "py_iter (JObj regs) = Inr (map JStr (rpre @ r # rpost))"
    by (simp only: py_iter.simps assms(2))
  have "region_loop rn data k (map JStr (rpre @ r # rpost)) = Inr (Some v)"
    using assms(1) v by (simp add: region_loop_first [OF assms(3,4)])
  then have "region_scan rn data k = Inr (Some v)"
    by (simp only: region_scan_def assms(1) it try_bind_simps)
  with v show ?thesis by blast
qed

lemma region_scan_Some:
  "region_scan rn data k = Inr (Some v) \<Longrightarrow>
   \<exists>rs r. regions_of data k = Inr rs \<and> lower r = lower rn \<and> py_getitem rs r = Inr v"
  by (auto simp: region_scan_def try_bind_Inr_iff dest!: region_loop_Some)

lemma history_region_loop_none:
  "\<forall>k\<in>set ks. keyed_test pm c data k = Inr False \<or>
      (keyed_test pm c data k = Inr True \<and> region_scan rn data k = Inr None) \<Longrightarrow>
   history_region_loop pm c rn data ks = Inl (RegionNotFound not_found_message)"
  by (induction ks) auto

lemma history_region_loop_first:
  "\<forall>k\<in>set pre. keyed_test pm c data k = Inr False \<or>
      (keyed_test pm c data k = Inr True \<and> region_scan rn data k = Inr None) \<Longrightarrow>
   keyed_test pm c data k = Inr True \<Longrightarrow> region_scan rn data k = Inr (Some v) \<Longrightarrow>
   history_region_loop pm c rn data (pre @ k # post) = Inr (Jsonify v)"
  by (induction pre) auto

lemma history_region_loop_Inr:
  "history_region_loop pm c rn data ks = Inr resp \<Longrightarrow>
   \<exists>k\<in>set ks. \<exists>v. keyed_test pm c data k = Inr True \<and> region_scan rn data k = Inr (Some v) \<and>
      resp = Jsonify v"
  by (induction ks) (auto split: sum.splits bool.splits option.splits)

lemma history_region_all_loop_Inr:
  "history_region_all_loop pm c data ks = Inr resp \<Longrightarrow>
   \<exists>k\<in>set ks. \<exists>v. keyed_test pm c data k = Inr True \<and> regions_of data k = Inr v \<and>
      resp = Jsonify v"
  by (induction ks) (auto simp: try_bind_Inr_iff split: sum.splits bool.splits)

lemma history_region_unfold:
  "read_region_json read_json dt c = Inr data \<Longrightarrow> py_keys data = Inr ks \<Longrightarrow>
   history_region pm read_json dt c rn =
     catch_not_found is_RegionNotFound (history_region_loop pm c rn data ks)"
  by (simp add: history_region_def)

lemma lower_length: "length (lower s) = length s"
  by (simp add: lower_def)

lemma proper_sublist_lower:
  "sublist q r \<Longrightarrow> q \<noteq> r \<Longrightarrow> lower q \<noteq> lower r"
proof
  assume a: "sublist q r" "q \<noteq> r" "lower q = lower r"
  from a(3) have "length q = length r" by (metis lower_length)
  moreover from a(1) obtain ps ss where "r = ps @ q @ ss" by (auto simp: sublist_def)
  ultimately have "r = q" by simp
  with a(2) show False by simp
qed

lemma region_scan_none_ex:
  "\<exists>regs. regions_of data k = Inr (JObj regs) \<and> (\<forall>r\<in>set (map fst regs). lower r \<noteq> lower rn) \<Longrightarrow>
   region_scan rn data k = Inr None"
  using region_scan_none by blast

lemma region_file_neq: "''csv_'' @ dt @ ''_us_region.json'' \<noteq> ''csv_'' @ dt @ ''_region.json''"
proof
  assume "''csv_'' @ dt @ ''_us_region.json'' = ''csv_'' @ dt @ ''_region.json''"
  then have "length (''csv_'' @ dt @ ''_us_region.json'') = length (''csv_'' @ dt @ ''_region.json'')"
    by (rule arg_cong)
  then show False by simp
qed

lemma catch_not_found_Jsonify:
  "catch_not_found p m = Jsonify v \<Longrightarrow> m = Inr (Jsonify v)"
  by (auto simp: catch_not_found_def response_error_def split: sum.splits if_splits)


lemma history_region_all_loop_first:
  "\<forall>x\<in>set pre. keyed_test pm c data x = Inr False \<Longrightarrow> keyed_test pm c data k = Inr True \<Longrightarrow>
   history_region_all_loop pm c data (pre @ k # post)
     = try_bind (regions_of data k) (\<lambda>v. Inr (Jsonify v))"
  by (induction pre) auto


text \<open>
  Claim C1, as the code has it. \<^verbatim>\<open>history_region\<close> raises one exception of its own,
  \<^verbatim>\<open>RegionNotFound\<close>. When the scan raises nothing and no country accepted by the matcher
  has a region whose name equals the query under case folding, the response is the 404
  error of \<^verbatim>\<open>RegionNotFound\<close>; this holds when some country is accepted and when none is.
  Every 404 response of the handler carries a \<^verbatim>\<open>RegionNotFound\<close>.
\<close>

theorem region_not_found:
  "(read_region_json read_json dt c = Inr data \<longrightarrow> py_keys data = Inr ks \<longrightarrow>
      (\<forall>k\<in>set ks. keyed_test pm c data k = Inr False \<or>
         (keyed_test pm c data k = Inr True \<and>
          (\<exists>regs. regions_of data k = Inr (JObj regs) \<and>
                  (\<forall>r\<in>set (map fst regs). lower r \<noteq> lower rn)))) \<longrightarrow>
      history_region pm read_json dt c rn = ResponseError (RegionNotFound not_found_message) 404) \<and>
   (read_region_json read_json dt c = Inr data \<longrightarrow> py_keys data = Inr ks \<longrightarrow>
      (\<forall>k\<in>set ks. keyed_test pm c data k = Inr False) \<longrightarrow>
      history_region pm read_json dt c rn = ResponseError (RegionNotFound not_found_message) 404) \<and>
   (history_region pm read_json dt c rn = ResponseError e 404 \<longrightarrow> is_RegionNotFound e)"
proof (intro conjI impI)
  assume a: "read_region_json read_json dt c = Inr data" "py_keys data = Inr ks"
    "\<forall>k\<in>set ks. keyed_test pm c data k = Inr False \<or>
         (keyed_test pm c data k = Inr True \<and>
          (\<exists>regs. regions_of data k = Inr (JObj regs) \<and>
                  (\<forall>r\<in>set (map fst regs). lower r \<noteq> lower rn)))"
  from a(3) have "\<forall>k\<in>set ks. keyed_test pm c data k = Inr False \<or>
      (keyed_test pm c data k = Inr True \<and> region_scan rn data k = Inr None)"
    using region_scan_none_ex by blast
  then have "history_region_loop pm c rn data ks = Inl (RegionNotFound not_found_message)"
    by (rule history_region_loop_none)
  with a(1,2) show "history_region pm read_json dt c rn
      = ResponseError (RegionNotFound not_found_message) 404"
    by (simp add: history_region_unfold catch_not_found_def response_error_def)
next
  assume a: "read_region_json read_json dt c = Inr data" "py_keys data = Inr ks"
    "\<forall>k\<in>set ks. keyed_test pm c data k = Inr False"
  then have "history_region_loop pm c rn data ks = Inl (RegionNotFound not_found_message)"
    by (simp add: history_region_loop_none)
  with a(1,2) show "history_region pm read_json dt c rn
      = ResponseError (RegionNotFound not_found_message) 404"
    by (simp add: history_region_unfold catch_not_found_def response_error_def)
next
  assume h: "history_region pm read_json dt c rn = ResponseError e 404"
  show "is_RegionNotFound e"
  proof (cases "try_bind (read_region_json read_json dt c) (\<lambda>data.
                  try_bind (py_keys data) (\<lambda>ks. history_region_loop pm c rn data ks))")
    case (Inl x)
    with h show ?thesis
      by (auto simp: history_region_def catch_not_found_def response_error_def split: if_splits)
  next
    case (Inr resp)
    then obtain data ks where "history_region_loop pm c rn data ks = Inr resp"
      by (auto simp: try_bind_Inr_iff)
    from history_region_loop_Inr [OF this] obtain v where "resp = Jsonify v" by blast
    with h Inr show ?thesis by (simp add: history_region_def catch_not_found_def)
  qed
qed


theorem region_not_found_witness:
  "history_region pattern_match_json ex_region_loader ''confirmed'' ''usa'' ''Calif''
     = ResponseError (RegionNotFound not_found_message) 404 \<and>
   history_region pattern_match_json ex_region_loader ''confirmed'' ''atlantis'' ''ontario''
     = ResponseError (RegionNotFound not_found_message) 404 \<and>
   is_RegionNotFound (RegionNotFound not_found_message)"
proof -
  let ?regs = "[(''California'', ex_california)]"
  have l1: "read_region_json ex_region_loader ''confirmed'' ''usa'' = Inr ex_us_region"
    and l2: "read_region_json ex_region_loader ''confirmed'' ''atlantis'' = Inr ex_region"
    by code_simp+
  have k1: "py_keys ex_us_region = Inr [''US'']" and k2: "py_keys ex_region = Inr [''Canada'']"
    by (simp_all add: ex_us_region_def ex_region_def)
  have t1: "keyed_test pattern_match_json ''usa'' ex_us_region ''US'' = Inr True"
    and t2: "keyed_test pattern_match_json ''atlantis'' ex_region ''Canada'' = Inr False"
    by code_simp+
  have r1: "regions_of ex_us_region ''US'' = Inr (JObj ?regs)"
    by code_simp
  have n1: "\<forall>r\<in>set (map fst ?regs). lower r \<noteq> lower ''Calif''"
    by code_simp
  have h1: "\<forall>k\<in>set [''US'']. keyed_test pattern_match_json ''usa'' ex_us_region k = Inr False \<or>
         (keyed_test pattern_match_json ''usa'' ex_us_region k = Inr True \<and>
          (\<exists>regs. regions_of ex_us_region k = Inr (JObj regs) \<and>
                  (\<forall>r\<in>set (map fst regs). lower r \<noteq> lower ''Calif'')))"
    using t1 r1 n1 by auto
  have h2: "\<forall>k\<in>set [''Canada'']. keyed_test pattern_match_json ''atlantis'' ex_region k = Inr False"
    using t2 by simp
  note a = region_not_found [of ex_region_loader "''confirmed''" "''usa''" ex_us_region "[''US'']"
      pattern_match_json "''Calif''" "RegionNotFound not_found_message"]
  note b = region_not_found [of ex_region_loader "''confirmed''" "''atlantis''" ex_region "[''Canada'']"
      pattern_match_json "''ontario''" "RegionNotFound not_found_message"]
  have "history_region pattern_match_json ex_region_loader ''confirmed'' ''usa'' ''Calif''
     = ResponseError (RegionNotFound not_found_message) 404"
    using a l1 k1 h1 by blast
  moreover have "history_region pattern_match_json ex_region_loader ''confirmed'' ''atlantis'' ''ontario''
     = ResponseError (RegionNotFound not_found_message) 404"
    using b l2 k2 h2 by blast
  ultimately show ?thesis using b by blast
qed


text \<open>
  The claim as stated asks for \<^verbatim>\<open>CountryNotFound\<close> when the country does not resolve. On a
  snapshot where \<^verbatim>\<open>history_region_all\<close> reports the country ``atlantis'' as not found,
  \<^verbatim>\<open>history_region\<close> answers with \<^verbatim>\<open>RegionNotFound\<close>.
\<close>

theorem region_country_unresolved_counterexample:
  "history_region_all pattern_match_json ex_region_loader ''confirmed'' ''atlantis''
     = ResponseError (CountryNotFound country_not_found_message) 404 \<and>
   history_region pattern_match_json ex_region_loader ''confirmed'' ''atlantis'' ''ontario''
     = ResponseError (RegionNotFound not_found_message) 404"
  by code_simp


text \<open>
  Claim C4. In \<^verbatim>\<open>history_region\<close> a stored region matches the query exactly when the two
  names are equal under case folding: with one accepted country, the response is the value
  of the first region whose folded name equals the folded query, and the 404 error of
  \<^verbatim>\<open>RegionNotFound\<close> when no region name does. A proper substring of a name never equals
  it under case folding, so it does not match.
\<close>

theorem region_match_exact:
  "(read_region_json read_json dt c = Inr data \<longrightarrow> py_keys data = Inr (pre @ k # post) \<longrightarrow>
     (\<forall>x\<in>set pre. keyed_test pm c data x = Inr False) \<longrightarrow> keyed_test pm c data k = Inr True \<longrightarrow>
     regions_of data k = Inr (JObj regs) \<longrightarrow> map fst regs = rpre @ r # rpost \<longrightarrow>
     (\<forall>x\<in>set rpre. lower x \<noteq> lower rn) \<longrightarrow> lower r = lower rn \<longrightarrow>
     (\<exists>v. map_of regs r = Some v \<and> history_region pm read_json dt c rn = Jsonify v)) \<and>
   (read_region_json read_json dt c = Inr data \<longrightarrow> py_keys data = Inr (pre @ k # post) \<longrightarrow>
     (\<forall>x\<in>set pre. keyed_test pm c data x = Inr False) \<longrightarrow> keyed_test pm c data k = Inr True \<longrightarrow>
     (\<forall>x\<in>set post. keyed_test pm c data x = Inr False) \<longrightarrow>
     regions_of data k = Inr (JObj regs) \<longrightarrow> (\<forall>x\<in>set (map fst regs). lower x \<noteq> lower rn) \<longrightarrow>
     history_region pm read_json dt c rn = ResponseError (RegionNotFound not_found_message) 404) \<and>
   (sublist q s \<longrightarrow> q \<noteq> s \<longrightarrow> lower q \<noteq> lower s)"
proof (intro conjI impI)
  assume a: "read_region_json read_json dt c = Inr data" "py_keys data = Inr (pre @ k # post)"
    "\<forall>x\<in>set pre. keyed_test pm c data x = Inr False" "keyed_test pm c data k = Inr True"
    "regions_of data k = Inr (JObj regs)" "map fst regs = rpre @ r # rpost"
    "\<forall>x\<in>set rpre. lower x \<noteq> lower rn" "lower r = lower rn"
  from region_scan_first [OF a(5-8)] obtain v where v: "map_of regs r = Some v"
    and s: "region_scan rn data k = Inr (Some v)" by blast
  from a(3) have "\<forall>x\<in>set pre. keyed_test pm c data x = Inr False \<or>
      (keyed_test pm c data x = Inr True \<and> region_scan rn data x = Inr None)" by blast
  from history_region_loop_first [OF this a(4) s]
  have "history_region_loop pm c rn data (pre @ k # post) = Inr (Jsonify v)" .
  with a(1,2) have "history_region pm read_json dt c rn = Jsonify v"
    by (simp add: history_region_unfold catch_not_found_def)
  with v show "\<exists>v. map_of regs r = Some v \<and> history_region pm read_json dt c rn = Jsonify v"
    by blast
next
  assume a: "read_region_json read_json dt c = Inr data" "py_keys data = Inr (pre @ k # post)"
    "\<forall>x\<in>set pre. keyed_test pm c data x = Inr False" "keyed_test pm c data k = Inr True"
    "\<forall>x\<in>set post. keyed_test pm c data x = Inr False"
    "regions_of data k = Inr (JObj regs)" "\<forall>x\<in>set (map fst regs). lower x \<noteq> lower rn"
  from a(6,7) have "region_scan rn data k = Inr None" by (rule region_scan_none)
  with a(3,4,5) have "\<forall>x\<in>set (pre @ k # post). keyed_test pm c data x = Inr False \<or>
      (keyed_test pm c data x = Inr True \<and> region_scan rn data x = Inr None)" by auto
  then have "history_region_loop pm c rn data (pre @ k # post) = Inl (RegionNotFound not_found_message)"
    by (rule history_region_loop_none)
  with a(1,2) show "history_region pm read_json dt c rn
      = ResponseError (RegionNotFound not_found_message) 404"
    by (simp add: history_region_unfold catch_not_found_def response_error_def)
next
  assume "sublist q s" "q \<noteq> s"
  then show "lower q \<noteq> lower s" by (rule proper_sublist_lower)
qed


theorem region_match_exact_witness:
  "lower ''california'' = lower ''California'' \<and>
   history_region pattern_match_json ex_region_loader ''confirmed'' ''usa'' ''california''
     = Jsonify ex_california \<and>
   sublist ''Calif'' ''California'' \<and> lower ''Calif'' \<noteq> lower ''California'' \<and>
   history_region pattern_match_json ex_region_loader ''confirmed'' ''usa'' ''Calif''
     = ResponseError (RegionNotFound not_found_message) 404"
proof -
  let ?regs = "[(''California'', ex_california)]"
  have l1: "read_region_json ex_region_loader ''confirmed'' ''usa'' = Inr ex_us_region"
    by code_simp
  have k1: "py_keys ex_us_region = Inr ([] @ ''US'' # [])"
    by (simp add: ex_us_region_def)
  have t0: "\<forall>x\<in>set []. keyed_test pattern_match_json ''usa'' ex_us_region x = Inr False"
    by simp
  have t1: "keyed_test pattern_match_json ''usa'' ex_us_region ''US'' = Inr True"
    by code_simp
  have r1: "regions_of ex_us_region ''US'' = Inr (JObj ?regs)"
    by code_simp
  have f1: "map fst ?regs = [] @ ''California'' # []" by simp
  have f0: "\<forall>x\<in>set []. lower x \<noteq> lower ''california''" by simp
  have e1: "lower ''California'' = lower ''california''" by code_simp
  have n1: "\<forall>x\<in>set (map fst ?regs). lower x \<noteq> lower ''Calif''"
    by code_simp
  have sl: "sublist ''Calif'' ''California''"
    unfolding sublist_def by (intro exI [of _ "[]"] exI [of _ "''ornia''"]) simp
  have ne: "''Calif'' \<noteq> ''California''" by simp
  note a = region_match_exact [of ex_region_loader "''confirmed''" "''usa''" ex_us_region "[]" "''US''" "[]"
      pattern_match_json ?regs "[]" "''California''" "[]" "''california''" "''Calif''" "''California''"]
  note b = region_match_exact [of ex_region_loader "''confirmed''" "''usa''" ex_us_region "[]" "''US''" "[]"
      pattern_match_json ?regs "[]" "''California''" "[]" "''Calif''" "''Calif''" "''California''"]
  have "\<exists>v. map_of ?regs ''California'' = Some v \<and>
     history_region pattern_match_json ex_region_loader ''confirmed'' ''usa'' ''california'' = Jsonify v"
    using a l1 k1 t0 t1 r1 f1 f0 e1 by blast
  then have c1: "history_region pattern_match_json ex_region_loader ''confirmed'' ''usa'' ''california''
     = Jsonify ex_california" by simp
  have c2: "history_region pattern_match_json ex_region_loader ''confirmed'' ''usa'' ''Calif''
     = ResponseError (RegionNotFound not_found_message) 404"
    using b l1 k1 t0 t1 r1 n1 by blast
  have c3: "lower ''Calif'' \<noteq> lower ''California''"
    using b sl ne by blast
  from e1 c1 sl c3 c2 show ?thesis by simp
qed

text \<open>
  Claim C5, as the code has it. \<^verbatim>\<open>history_region\<close> and \<^verbatim>\<open>history_region_all\<close> read one
  file: the US regional snapshot when the lower-cased country query is one of ``us'',
  ``united states'' and ``usa'', the generic regional snapshot otherwise (the two names
  always differ), and their response does not depend on what the loader has under any
  other name. \<^verbatim>\<open>history_region_all\<close> returns the regions of the first country of that file
  that the matcher accepts. \<^verbatim>\<open>history_region\<close> goes through the accepted countries in stored
  order and returns the first region with an equal folded name in the first accepted
  country that has one; the accepted countries before it have no such region. Every
  successful response is a region, or the regions, of an accepted country of that file.
\<close>

theorem region_snapshot_selection:
  "(let file = (if lower c \<in> {''us'', ''united states'', ''usa''}
                then ''csv_'' @ dt @ ''_us_region.json'' else ''csv_'' @ dt @ ''_region.json'')
    in (read_json' file = read_json file \<longrightarrow>
          history_region pm read_json' dt c rn = history_region pm read_json dt c rn \<and>
          history_region_all pm read_json' dt c = history_region_all pm read_json dt c) \<and>
       (read_json file = Inr data \<longrightarrow> py_keys data = Inr (pre @ k # post) \<longrightarrow>
          (\<forall>x\<in>set pre. keyed_test pm c data x = Inr False) \<longrightarrow>
          keyed_test pm c data k = Inr True \<longrightarrow> regions_of data k = Inr v \<longrightarrow>
          history_region_all pm read_json dt c = Jsonify v) \<and>
       (read_json file = Inr data \<longrightarrow> py_keys data = Inr (pre @ k # post) \<longrightarrow>
          (\<forall>x\<in>set pre. keyed_test pm c data x = Inr False \<or>
             (keyed_test pm c data x = Inr True \<and>
              (\<exists>regs. regions_of data x = Inr (JObj regs) \<and>
                      (\<forall>r\<in>set (map fst regs). lower r \<noteq> lower rn)))) \<longrightarrow>
          keyed_test pm c data k = Inr True \<longrightarrow>
          regions_of data k = Inr (JObj regs) \<longrightarrow> map fst regs = rpre @ r # rpost \<longrightarrow>
          (\<forall>x\<in>set rpre. lower x \<noteq> lower rn) \<longrightarrow> lower r = lower rn \<longrightarrow>
          (\<exists>w. map_of regs r = Some w \<and> history_region pm read_json dt c rn = Jsonify w)) \<and>
       (history_region pm read_json dt c rn = Jsonify v \<longrightarrow>
          (\<exists>data ks k regs r. read_json file = Inr data \<and> py_keys data = Inr ks \<and> k \<in> set ks \<and>
             keyed_test pm c data k = Inr True \<and> regions_of data k = Inr regs \<and>
             lower r = lower rn \<and> py_getitem regs r = Inr v)) \<and>
       (history_region_all pm read_json dt c = Jsonify v \<longrightarrow>
          (\<exists>data ks k. read_json file = Inr data \<and> py_keys data = Inr ks \<and> k \<in> set ks \<and>
             keyed_test pm c data k = Inr True \<and> regions_of data k = Inr v))) \<and>
   ''csv_'' @ dt @ ''_us_region.json'' \<noteq> ''csv_'' @ dt @ ''_region.json''"
proof -
  define fname where "fname = (if lower c \<in> {''us'', ''united states'', ''usa''}
                then ''csv_'' @ dt @ ''_us_region.json'' else ''csv_'' @ dt @ ''_region.json'')"
  have rd: "read_region_json f dt c = f fname" for f
    by (simp add: read_region_json_def fname_def)
  have a: "history_region pm read_json' dt c rn = history_region pm read_json dt c rn \<and>
          history_region_all pm read_json' dt c = history_region_all pm read_json dt c"
    if "read_json' fname = read_json fname"
    using that by (simp add: history_region_def history_region_all_def rd)
  have d: "history_region_all pm read_json dt c = Jsonify v"
    if "read_json fname = Inr data" "py_keys data = Inr (pre @ k # post)"
      "\<forall>x\<in>set pre. keyed_test pm c data x = Inr False"
      "keyed_test pm c data k = Inr True" "regions_of data k = Inr v"
    using that
    by (simp add: history_region_all_def rd catch_not_found_def history_region_all_loop_first)
  have e: "\<exists>w. map_of regs r = Some w \<and> history_region pm read_json dt c rn = Jsonify w"
    if h: "read_json fname = Inr data" "py_keys data = Inr (pre @ k # post)"
      "\<forall>x\<in>set pre. keyed_test pm c data x = Inr False \<or>
             (keyed_test pm c data x = Inr True \<and>
              (\<exists>regs. regions_of data x = Inr (JObj regs) \<and>
                      (\<forall>r\<in>set (map fst regs). lower r \<noteq> lower rn)))"
      "keyed_test pm c data k = Inr True"
      "regions_of data k = Inr (JObj regs)" "map fst regs = rpre @ r # rpost"
      "\<forall>x\<in>set rpre. lower x \<noteq> lower rn" "lower r = lower rn"
  proof -
    from region_scan_first [OF h(5-8)] obtain w where w: "map_of regs r = Some w"
      and s: "region_scan rn data k = Inr (Some w)" by blast
    from h(3) have "\<forall>x\<in>set pre. keyed_test pm c data x = Inr False \<or>
        (keyed_test pm c data x = Inr True \<and> region_scan rn data x = Inr None)"
      using region_scan_none_ex by blast
    from history_region_loop_first [OF this h(4) s]
    have "history_region_loop pm c rn data (pre @ k # post) = Inr (Jsonify w)" .
    with h(1,2) have "history_region pm read_json dt c rn = Jsonify w"
      by (simp add: history_region_def rd catch_not_found_def)
    with w show ?thesis by blast
  qed
  have b: "\<exists>data ks k regs r. read_json fname = Inr data \<and> py_keys data = Inr ks \<and> k \<in> set ks \<and>
             keyed_test pm c data k = Inr True \<and> regions_of data k = Inr regs \<and>
             lower r = lower rn \<and> py_getitem regs r = Inr v"
    if "history_region pm read_json dt c rn = Jsonify v"
  proof -
    from that have "try_bind (read_json fname) (\<lambda>data. try_bind (py_keys data) (\<lambda>ks.
        history_region_loop pm c rn data ks)) = Inr (Jsonify v)"
      unfolding history_region_def rd by (rule catch_not_found_Jsonify)
    then obtain data ks where d: "read_json fname = Inr data" "py_keys data = Inr ks"
      and l: "history_region_loop pm c rn data ks = Inr (Jsonify v)"
      by (auto simp: try_bind_Inr_iff)
    from history_region_loop_Inr [OF l] obtain k where k: "k \<in> set ks"
      "keyed_test pm c data k = Inr True" "region_scan rn data k = Inr (Some v)"
      by auto
    from region_scan_Some [OF k(3)] d k(1,2) show ?thesis by blast
  qed
  have c: "\<exists>data ks k. read_json fname = Inr data \<and> py_keys data = Inr ks \<and> k \<in> set ks \<and>
             keyed_test pm c data k = Inr True \<and> regions_of data k = Inr v"
    if "history_region_all pm read_json dt c = Jsonify v"
  proof -
    from that have "try_bind (read_json fname) (\<lambda>data. try_bind (py_keys data) (\<lambda>ks.
        history_region_all_loop pm c data ks)) = Inr (Jsonify v)"
      unfolding history_region_all_def rd by (rule catch_not_found_Jsonify)
    then obtain data ks where d: "read_json fname = Inr data" "py_keys data = Inr ks"
      and l: "history_region_all_loop pm c data ks = Inr (Jsonify v)"
      by (auto simp: try_bind_Inr_iff)
    from history_region_all_loop_Inr [OF l] d show ?thesis by blast
  qed
  from a b c d e region_file_neq [of dt] show ?thesis
    unfolding Let_def fname_def [symmetric] by (intro conjI impI) blast+
qed

theorem region_snapshot_selection_witness:
  "history_region pattern_match_json ex_region_loader ''confirmed'' ''USA'' ''california''
     = history_region pattern_match_json (\<lambda>name. if name = ''csv_confirmed_us_region.json''
         then Inr ex_us_region else Inl (OtherError ''FileNotFoundError'' name))
         ''confirmed'' ''USA'' ''california'' \<and>
   history_region pattern_match_json ex_region_loader ''confirmed'' ''USA'' ''california''
     = Jsonify ex_california \<and>
   history_region pattern_match_json ex_region_loader ''confirmed'' ''canada'' ''ontario''
     = history_region pattern_match_json (\<lambda>name. if name = ''csv_confirmed_region.json''
         then Inr ex_region else Inl (OtherError ''FileNotFoundError'' name))
         ''confirmed'' ''canada'' ''ontario'' \<and>
   history_region pattern_match_json ex_region_loader ''confirmed'' ''canada'' ''ontario''
     = Jsonify ex_ontario \<and>
   history_region_all pattern_match_json (ex_loader ex_guinea_region) ''confirmed'' ''guinea''
     = Jsonify (JObj [(''Conakry'', ex_conakry)]) \<and>
   history_region pattern_match_json (ex_loader ex_guinea_region) ''confirmed'' ''guinea'' ''morobe''
     = Jsonify ex_morobe"
proof -
  let ?us = "\<lambda>name. if name = ''csv_confirmed_us_region.json''
         then Inr ex_us_region else Inl (OtherError ''FileNotFoundError'' name)"
  let ?gen = "\<lambda>name. if name = ''csv_confirmed_region.json''
         then Inr ex_region else Inl (OtherError ''FileNotFoundError'' name)"
  let ?G = "ex_loader ex_guinea_region"
  let ?cregs = "[(''Conakry'', ex_conakry)]"
  let ?mregs = "[(''Morobe'', ex_morobe)]"
  have u: "lower ''USA'' \<in> {''us'', ''united states'', ''usa''}" by code_simp
  have g: "lower ''canada'' \<notin> {''us'', ''united states'', ''usa''}" by code_simp
  have gg: "lower ''guinea'' \<notin> {''us'', ''united states'', ''usa''}" by code_simp
  have e1: "?us (''csv_'' @ ''confirmed'' @ ''_us_region.json'')
      = ex_region_loader (''csv_'' @ ''confirmed'' @ ''_us_region.json'')"
    and e2: "?gen (''csv_'' @ ''confirmed'' @ ''_region.json'')
      = ex_region_loader (''csv_'' @ ''confirmed'' @ ''_region.json'')"
    by (simp_all add: ex_region_loader_def)
  note a = region_snapshot_selection [where c = "''USA''" and dt = "''confirmed''"
      and read_json' = ?us and read_json = ex_region_loader and pm = pattern_match_json
      and rn = "''california''"]
  note b = region_snapshot_selection [where c = "''canada''" and dt = "''confirmed''"
      and read_json' = ?gen and read_json = ex_region_loader and pm = pattern_match_json
      and rn = "''ontario''"]
  have r1: "history_region pattern_match_json ?us ''confirmed'' ''USA'' ''california''
     = history_region pattern_match_json ex_region_loader ''confirmed'' ''USA'' ''california''"
    using a u e1 unfolding Let_def by (simp only: if_True)
  have r2: "history_region pattern_match_json ?gen ''confirmed'' ''canada'' ''ontario''
     = history_region pattern_match_json ex_region_loader ''confirmed'' ''canada'' ''ontario''"
    using b g e2 unfolding Let_def by (simp only: if_False)
  have v1: "history_region pattern_match_json ex_region_loader ''confirmed'' ''USA'' ''california''
     = Jsonify ex_california"
    by code_simp
  have v2: "history_region pattern_match_json ex_region_loader ''confirmed'' ''canada'' ''ontario''
     = Jsonify ex_ontario"
    by code_simp
  have l: "?G (''csv_'' @ ''confirmed'' @ ''_region.json'') = Inr ex_guinea_region"
    by (simp add: ex_loader_def)
  have k0: "py_keys ex_guinea_region = Inr ([] @ ''Guinea'' # [''Papua New Guinea''])"
    and k1: "py_keys ex_guinea_region = Inr ([''Guinea''] @ ''Papua New Guinea'' # [])"
    by (simp_all add: ex_guinea_region_def)
  have t0: "\<forall>x\<in>set []. keyed_test pattern_match_json ''guinea'' ex_guinea_region x = Inr False"
    by simp
  have t1: "keyed_test pattern_match_json ''guinea'' ex_guinea_region ''Guinea'' = Inr True"
    and t2: "keyed_test pattern_match_json ''guinea'' ex_guinea_region ''Papua New Guinea'' = Inr True"
    by code_simp+
  have g1: "regions_of ex_guinea_region ''Guinea'' = Inr (JObj ?cregs)"
    and g2: "regions_of ex_guinea_region ''Papua New Guinea'' = Inr (JObj ?mregs)"
    by code_simp+
  have n1: "\<forall>r\<in>set (map fst ?cregs). lower r \<noteq> lower ''morobe''" by code_simp
  have p1: "\<forall>x\<in>set [''Guinea''].
      keyed_test pattern_match_json ''guinea'' ex_guinea_region x = Inr False \<or>
      (keyed_test pattern_match_json ''guinea'' ex_guinea_region x = Inr True \<and>
       (\<exists>regs. regions_of ex_guinea_region x = Inr (JObj regs) \<and>
               (\<forall>r\<in>set (map fst regs). lower r \<noteq> lower ''morobe'')))"
    using t1 g1 n1 by auto
  have f1: "map fst ?mregs = [] @ ''Morobe'' # []" by simp
  have f0: "\<forall>x\<in>set []. lower x \<noteq> lower ''morobe''" by simp
  have m1: "lower ''Morobe'' = lower ''morobe''" by code_simp
  have sel: "(if lower ''guinea'' \<in> {''us'', ''united states'', ''usa''}
               then ''csv_'' @ ''confirmed'' @ ''_us_region.json''
               else ''csv_'' @ ''confirmed'' @ ''_region.json'')
             = ''csv_'' @ ''confirmed'' @ ''_region.json''"
    using gg by (simp only: if_False)
  note c = region_snapshot_selection [where c = "''guinea''" and dt = "''confirmed''"
      and read_json = ?G and pm = pattern_match_json and rn = "''morobe''"
      and data = ex_guinea_region and pre = "[]" and k = "''Guinea''"
      and post = "[''Papua New Guinea'']" and v = "JObj ?cregs", unfolded Let_def sel,
      THEN conjunct1, THEN conjunct2, THEN conjunct1]
  note d = region_snapshot_selection [where c = "''guinea''" and dt = "''confirmed''"
      and read_json = ?G and pm = pattern_match_json and rn = "''morobe''"
      and data = ex_guinea_region and pre = "[''Guinea'']" and k = "''Papua New Guinea''"
      and post = "[]" and regs = ?mregs and rpre = "[]" and r = "''Morobe''" and rpost = "[]",
      unfolded Let_def sel, THEN conjunct1, THEN conjunct2, THEN conjunct2, THEN conjunct1]
  have r3: "history_region_all pattern_match_json ?G ''confirmed'' ''guinea'' = Jsonify (JObj ?cregs)"
    by (rule c [THEN mp, THEN mp, THEN mp, THEN mp, THEN mp, OF l k0 t0 t1 g1])
  have "\<exists>w. map_of ?mregs ''Morobe'' = Some w \<and>
      history_region pattern_match_json ?G ''confirmed'' ''guinea'' ''morobe'' = Jsonify w"
    by (rule d [THEN mp, THEN mp, THEN mp, THEN mp, THEN mp, THEN mp, THEN mp, THEN mp,
          OF l k1 p1 t2 g2 f1 f0 m1])
  then have r4: "history_region pattern_match_json ?G ''confirmed'' ''guinea'' ''morobe''
      = Jsonify ex_morobe" by simp
  from r1 r2 v1 v2 r3 r4 show ?thesis by simp
qed

text \<open>
  The claim as stated looks the region up within the resolved country. For the query
  ``guinea'' the first accepted country is Guinea, whose regions \<^verbatim>\<open>history_region_all\<close>
  returns and which has no region ``morobe''; \<^verbatim>\<open>history_region\<close> goes on to Papua New
  Guinea, which the matcher accepts as well, and returns its region Morobe.
\<close>

theorem region_fall_through_counterexample:
  "history_region_all pattern_match_json (ex_loader ex_guinea_region) ''confirmed'' ''guinea''
     = Jsonify (JObj [(''Conakry'', ex_conakry)]) \<and>
   lower ''Conakry'' \<noteq> lower ''morobe'' \<and>
   history_region pattern_match_json (ex_loader ex_guinea_region) ''confirmed'' ''guinea'' ''morobe''
     = Jsonify ex_morobe"
  by code_simp


section \<open>The matcher of the specification\<close>

lemma is_substring_iff: "is_substring q n \<longleftrightarrow> sublist q n"
  by (induction n) (simp_all add: sublist_Cons_right)

lemma lower_Nil_iff: "lower s = [] \<longleftrightarrow> s = []"
  by (simp add: lower_def)


text \<open>
  Claim C9. For a non-empty query the matcher succeeds if and only if the folded query
  equals the folded name, iso2 or iso3, or is a non-empty contiguous part of the folded
  name. The empty query never matches. The codes are matched by equality only: a query
  that neither equals the name nor occurs in it matches exactly when it equals a code.
\<close>

theorem pattern_match_spec:
  "(query \<noteq> [] \<longrightarrow>
      (pattern_match query name iso2 iso3 \<longleftrightarrow>
         lower query = lower name \<or> lower query = lower iso2 \<or> lower query = lower iso3 \<or>
         (lower query \<noteq> [] \<and> (\<exists>ps ss. lower name = ps @ lower query @ ss)))) \<and>
   \<not> pattern_match [] name iso2 iso3 \<and>
   (lower query \<noteq> lower name \<longrightarrow> \<not> (\<exists>ps ss. lower name = ps @ lower query @ ss) \<longrightarrow>
      (pattern_match query name iso2 iso3 \<longleftrightarrow>
         lower query = lower iso2 \<or> lower query = lower iso3))"
proof (intro conjI impI)
  assume "query \<noteq> []"
  then have "lower query \<noteq> []" by (simp add: lower_Nil_iff)
  then show "pattern_match query name iso2 iso3 \<longleftrightarrow>
      lower query = lower name \<or> lower query = lower iso2 \<or> lower query = lower iso3 \<or>
      (lower query \<noteq> [] \<and> (\<exists>ps ss. lower name = ps @ lower query @ ss))"
    by (simp add: pattern_match_def Let_def is_substring_iff sublist_def)
next
  show "\<not> pattern_match [] name iso2 iso3"
    by (simp add: pattern_match_def Let_def lower_def)
next
  assume a: "lower query \<noteq> lower name" "\<not> (\<exists>ps ss. lower name = ps @ lower query @ ss)"
  have "lower query \<noteq> []"
  proof
    assume "lower query = []"
    then have "lower name = lower name @ lower query @ []" by simp
    with a(2) show False by blast
  qed
  with a show "pattern_match query name iso2 iso3 \<longleftrightarrow>
         lower query = lower iso2 \<or> lower query = lower iso3"
    by (simp add: pattern_match_def Let_def is_substring_iff sublist_def)
qed

theorem pattern_match_spec_witness:
  "pattern_match ''KoRe'' ''South Korea'' ''KR'' ''KOR'' \<and>
   pattern_match ''kr'' ''South Korea'' ''KR'' ''KOR'' \<and>
   \<not> pattern_match [] ''South Korea'' ''KR'' ''KOR'' \<and>
   \<not> pattern_match [] ''Hubei'' [] [] \<and>
   \<not> pattern_match ''ko'' ''Japan'' ''KR'' ''KOR''"
proof -
  have l: "lower ''KoRe'' = ''kore''" "lower ''South Korea'' = ''south korea''"
    "lower ''kr'' = ''kr''" "lower ''KR'' = ''kr''" "lower ''KOR'' = ''kor''"
    "lower ''ko'' = ''ko''" "lower ''Japan'' = ''japan''"
    by code_simp+
  have s: "''south korea'' = ''south '' @ ''kore'' @ ''a''" by simp
  have n: "\<not> (\<exists>ps ss. ''japan'' = ps @ ''ko'' @ ss)"
    using is_substring_iff [of "''ko''" "''japan''"] by (simp add: sublist_def)
  have q: "''KoRe'' \<noteq> []" "''kr'' \<noteq> []" by simp_all
  note a = pattern_match_spec [of "''KoRe''" "''South Korea''" "''KR''" "''KOR''"]
  note b = pattern_match_spec [of "''kr''" "''South Korea''" "''KR''" "''KOR''"]
  note c = pattern_match_spec [of "''ko''" "''Japan''" "''KR''" "''KOR''"]
  note d = pattern_match_spec [of "''ko''" "''Hubei''" "[]" "[]"]
  have "pattern_match ''KoRe'' ''South Korea'' ''KR'' ''KOR''"
    using a s q unfolding l by blast
  moreover have "pattern_match ''kr'' ''South Korea'' ''KR'' ''KOR''"
    using b q unfolding l by blast
  moreover have "\<not> pattern_match [] ''South Korea'' ''KR'' ''KOR''"
    using a by blast
  moreover have "\<not> pattern_match [] ''Hubei'' [] []"
    using d by blast
  moreover have "\<not> pattern_match ''ko'' ''Japan'' ''KR'' ''KOR''"
    using c n unfolding l by simp
  ultimately show ?thesis by simp
qed

section \<open>Memoization\<close>

lemma cache_store_result:
  "cache_store key compute now st = (r, st') \<Longrightarrow>
   r = compute now \<and> computations st' = computations st + 1 \<and>
   entries st' key = Some \<lparr>entry_value = compute now, entry_expiry = now + CACHE_DEFAULT_TIMEOUT\<rparr>"
  by (auto simp: cache_store_def Let_def)

lemma memoize_miss:
  "\<not> unexpired st (name, args) now \<Longrightarrow>
   memoize name args compute now st = cache_store (name, args) compute now st"
  by (auto simp: memoize_def unexpired_def split: option.splits)

lemma memoize_hit:
  "entries st (name, args) = Some e \<Longrightarrow> now < entry_expiry e \<Longrightarrow>
   memoize name args compute now st = (entry_value e, st)"
  by (simp add: memoize_def)


text \<open>
  Claim C8. After a call that finds no unexpired entry for its operation and arguments,
  a second call with the same arguments less than 15 minutes (900 seconds) later returns
  the stored response of the first call, error responses included, and the computation
  has run once; a call more than 15 minutes after the first runs the computation again.
\<close>

theorem memoize_within_ttl:
  assumes miss: "\<not> unexpired st (name, args) t1"
    and within: "t2 < t1 + 15 * 60"
    and after: "t1 + 15 * 60 < t3"
  shows "(let (r1, s1) = memoize name args compute t1 st;
              (r2, s2) = memoize name args compute t2 s1;
              (r3, s3) = memoize name args compute t3 s2
          in r1 = compute t1 \<and> computations s1 = computations st + 1 \<and>
             r2 = compute t1 \<and> computations s2 = computations st + 1 \<and>
             r3 = compute t3 \<and> computations s3 = computations st + 2)"
proof -
  obtain r1 s1 where c1: "memoize name args compute t1 st = (r1, s1)" by fastforce
  with miss have "cache_store (name, args) compute t1 st = (r1, s1)"
    by (simp add: memoize_miss)
  from cache_store_result [OF this]
  have r1: "r1 = compute t1" and n1: "computations s1 = computations st + 1"
    and e1: "entries s1 (name, args)
       = Some \<lparr>entry_value = compute t1, entry_expiry = t1 + CACHE_DEFAULT_TIMEOUT\<rparr>"
    by simp_all
  from within have "t2 < t1 + CACHE_DEFAULT_TIMEOUT" by (simp add: CACHE_DEFAULT_TIMEOUT_def)
  with e1 have c2: "memoize name args compute t2 s1 = (compute t1, s1)"
    by (simp add: memoize_hit)
  from after e1 have "\<not> unexpired s1 (name, args) t3"
    by (simp add: unexpired_def CACHE_DEFAULT_TIMEOUT_def)
  then have m3: "memoize name args compute t3 s1 = cache_store (name, args) compute t3 s1"
    by (rule memoize_miss)
  obtain r3 s3 where c3: "memoize name args compute t3 s1 = (r3, s3)" by fastforce
  with m3 have "cache_store (name, args) compute t3 s1 = (r3, s3)" by simp
  from cache_store_result [OF this] n1
  have "r3 = compute t3" "computations s3 = computations st + 2" by simp_all
  with c1 c2 c3 r1 n1 show ?thesis by simp
qed


theorem memoize_within_ttl_witness:
  "(let compute = (\<lambda>t. history_country pattern_match_json (ex_loader ex_history) ''confirmed'' ''germany'');
        (r1, s1) = memoize ''history_country'' [''confirmed'', ''germany''] compute 0 empty_cache;
        (r2, s2) = memoize ''history_country'' [''confirmed'', ''germany''] compute 899 s1;
        (r3, s3) = memoize ''history_country'' [''confirmed'', ''germany''] compute 901 s2
    in r1 = ResponseError (CountryNotFound not_found_message) 404 \<and> r2 = r1 \<and>
       computations s2 = 1 \<and> r3 = r1 \<and> computations s3 = 2)"
proof -
  let ?compute = "\<lambda>t::nat. history_country pattern_match_json (ex_loader ex_history) ''confirmed'' ''germany''"
  have m: "\<not> unexpired empty_cache (''history_country'', [''confirmed'', ''germany'']) 0"
    by (simp add: unexpired_def empty_cache_def)
  have v: "?compute t = ResponseError (CountryNotFound not_found_message) 404" for t
    by code_simp
  have z: "computations empty_cache = 0" by (simp add: empty_cache_def)
  from memoize_within_ttl [of empty_cache "''history_country''" "[''confirmed'', ''germany'']" 0 899 901
      ?compute, OF m] v z
  show ?thesis by (simp add: Let_def split: prod.splits)
qed

end
